theory Spec2Isabelle
  imports Main "HOL-Library.Sublist"
begin

section \<open>Python values the script handles\<close>

text \<open>
  The program is one Streamlit script, \<^verbatim>\<open>src/app.py\<close>, executed from top to bottom on
  every user interaction.  Each call into Streamlit or into the phi/groq libraries is an
  effect; the model records the effects of one execution as a list of events, in program
  order, and passes the state that survives an execution (the process environment, the
  \<^verbatim>\<open>st.cache_resource\<close> cache and \<^verbatim>\<open>st.session_state\<close>) explicitly.
\<close>

text \<open>
  Exceptions.  The script distinguishes exceptions only through \<^verbatim>\<open>isinstance\<close> against
  \<^verbatim>\<open>groq.APIStatusError\<close> and \<^verbatim>\<open>Exception\<close>, and through their text \<^verbatim>\<open>str(e)\<close>.
  \<open>OtherBaseException\<close> stands for the classes that derive from \<^verbatim>\<open>BaseException\<close> but
  not from \<^verbatim>\<open>Exception\<close>.
\<close>

datatype exc_type = TypeError | KeyError | APIStatusError | OtherException | OtherBaseException

datatype py_exc = PyExc (exc_type: exc_type) (exc_str: string)

definition isinstance_APIStatusError :: "py_exc \<Rightarrow> bool" where
  "isinstance_APIStatusError e = (exc_type e = APIStatusError)"

definition isinstance_Exception :: "py_exc \<Rightarrow> bool" where
  "isinstance_Exception e = (exc_type e \<noteq> OtherBaseException)"

text \<open>Truthiness of a Python \<^verbatim>\<open>str\<close>: the empty string is false.\<close>

definition truthy :: "string \<Rightarrow> bool" where
  "truthy s = (s \<noteq> [])"

text \<open>The substring test \<^verbatim>\<open>needle in haystack\<close> on strings.\<close>

fun str_in :: "string \<Rightarrow> string \<Rightarrow> bool" where
  "str_in needle [] = (needle = [])"
| "str_in needle (c # cs) = (prefix needle (c # cs) \<or> str_in needle cs)"

subsection \<open>The process environment\<close>

type_synonym environ = "string \<rightharpoonup> string"

definition os_getenv :: "environ \<Rightarrow> string \<Rightarrow> string option" where
  "os_getenv env k = env k"

text \<open>
  \<^verbatim>\<open>os.environ[k] = v\<close> accepts only a \<^verbatim>\<open>str\<close>: with \<^verbatim>\<open>None\<close> it raises
  \<^verbatim>\<open>TypeError: str expected, not NoneType\<close>.
\<close>

definition os_environ_setitem :: "environ \<Rightarrow> string \<Rightarrow> string option \<Rightarrow> py_exc + environ" where
  "os_environ_setitem env k v =
     (case v of
        None \<Rightarrow> Inl (PyExc TypeError ''str expected, not NoneType'')
      | Some s \<Rightarrow> Inr (env(k \<mapsto> s)))"

definition os_environ_getitem :: "environ \<Rightarrow> string \<Rightarrow> py_exc + string" where
  "os_environ_getitem env k =
     (case env k of None \<Rightarrow> Inl (PyExc KeyError k) | Some s \<Rightarrow> Inr s)"

subsection \<open>Handles of the external libraries\<close>

text \<open>
  The constructors of the phi library only store their keyword arguments; the handles are
  modelled as the values of those arguments.  Such an object is always truthy in Python,
  so \<^verbatim>\<open>if knowledge_base:\<close> tests it against \<^verbatim>\<open>None\<close>.
\<close>

datatype embedder = GeminiEmbedder

datatype groq = Groq (groq_id: string) (groq_embedder: "embedder option")

datatype pgvector2 = PgVector2 (collection: string) (pg_db_url: string) (pg_embedder: embedder)

datatype pdf_reader = PDFReader (chunk: bool)

datatype source_kb =
    PDFUrlKnowledgeBase groq "string list" pgvector2
  | PDFKnowledgeBase groq string pgvector2 pdf_reader
  | WebsiteKnowledgeBase groq "string list" nat pgvector2

fun vector_db :: "source_kb \<Rightarrow> pgvector2" where
  "vector_db (PDFUrlKnowledgeBase m urls db) = db"
| "vector_db (PDFKnowledgeBase m path db r) = db"
| "vector_db (WebsiteKnowledgeBase m urls max_links db) = db"

datatype combined_kb = CombinedKnowledgeBase (sources: "source_kb list") (combined_vector_db: pgvector2)

datatype pg_agent_storage = PgAgentStorage (table_name: string) (storage_db_url: string)

datatype agent = Agent
  (agent_model: groq)
  (agent_run_id: "string option")
  (agent_user_id: string)
  (agent_knowledge_base: combined_kb)
  (agent_storage: pg_agent_storage)
  (show_tool_calls: bool)
  (search_knowledge: bool)
  (read_chat_history: bool)
  (max_tokens: nat)

text \<open>
  The answer object of \<^verbatim>\<open>assistant.run\<close>: its \<^verbatim>\<open>content\<close> attribute when it has one
  (\<^verbatim>\<open>hasattr(response, 'content')\<close>), and its string conversion \<^verbatim>\<open>str(response)\<close>.
\<close>

datatype run_response = RunResponse (response_content: "string option") (response_str: string)

text \<open>An uploaded file as \<^verbatim>\<open>st.file_uploader\<close> returns it: a name and the payload.\<close>

datatype uploaded_file = UploadedFile (file_name: string) (file_data: string)

subsection \<open>Effects\<close>

datatype markdown =
    TitleBlock | InputSourcesHeading | ChatHeading
  | YouLine string | AssistantLine string | CustomCSS

datatype event =
    StError string
  | StSuccess string
  | StWarning string
  | StMarkdown markdown
  | StTextInput string
  | StFileUploader string
  | StButton string
  | TempFileWrite string string
  | KBLoad combined_kb bool
  | AgentInit agent
  | AgentRun agent string

text \<open>
  What one execution of the script receives from outside: the values its widgets return,
  the name \<^verbatim>\<open>tempfile.NamedTemporaryFile\<close> picks, and the outcome of \<^verbatim>\<open>assistant.run\<close>
  (an answer object or a raised exception), and the outcome of
  \<^verbatim>\<open>knowledge_base.load(recreate=True)\<close> for a handle: \<open>None\<close> when the load returns, the
  exception when it raises.  The remaining library calls are the constructors, which only
  store their arguments, and the write of the temporary file; they are taken to return
  normally.
\<close>

record widgets =
  pdf_url_input :: string
  uploaded_pdf_file :: "uploaded_file option"
  website_url_input :: string
  load_button :: bool
  user_input :: string

record world =
  tempfile_name :: string
  assistant_run :: "agent \<Rightarrow> string \<Rightarrow> py_exc + run_response"
  kb_load :: "combined_kb \<Rightarrow> py_exc option"

section \<open>The credential check (lines 21 to 27)\<close>

datatype outcome = Completed | Stopped | Raised py_exc

definition missing_api_keys :: string where
  "missing_api_keys = ''Missing API Keys! Check your .env file.''"

definition check_api_keys :: "environ \<Rightarrow> outcome \<times> environ \<times> event list" where
  "check_api_keys env =
     (case os_environ_setitem env ''GROQ_API_KEY'' (os_getenv env ''GROQ_API_KEY'') of
        Inl e \<Rightarrow> (Raised e, env, [])
      | Inr env1 \<Rightarrow>
         (case os_environ_setitem env1 ''GOOGLE_API_KEY'' (os_getenv env1 ''GOOGLE_API_KEY'') of
            Inl e \<Rightarrow> (Raised e, env1, [])
          | Inr env2 \<Rightarrow>
             (case os_environ_getitem env2 ''GROQ_API_KEY'' of
                Inl e \<Rightarrow> (Raised e, env2, [])
              | Inr groq_key \<Rightarrow>
                 if truthy groq_key then
                   (case os_environ_getitem env2 ''GOOGLE_API_KEY'' of
                      Inl e \<Rightarrow> (Raised e, env2, [])
                    | Inr google_key \<Rightarrow>
                       if truthy google_key then (Completed, env2, [])
                       else (Stopped, env2, [StError missing_api_keys]))
                 else (Stopped, env2, [StError missing_api_keys]))))"

section \<open>The knowledge-base builders (lines 69 to 135)\<close>

definition db_url :: string where
  "db_url = ''postgresql+psycopg://ai:ai@localhost:5532/ai''"

definition create_pdf_url_knowledge_base :: "string \<Rightarrow> source_kb option" where
  "create_pdf_url_knowledge_base pdf_url =
     (if truthy pdf_url then
        Some (PDFUrlKnowledgeBase (Groq ''llama3-70b-8192'' None) [pdf_url]
                (PgVector2 ''pdf_url'' db_url GeminiEmbedder))
      else None)"

text \<open>
  The uploaded file is tested as an object (\<^verbatim>\<open>if uploaded_file:\<close>), so a file is present
  or not, whatever its payload; the payload is written to the temporary file first.
\<close>

definition create_local_pdf_knowledge_base ::
    "world \<Rightarrow> uploaded_file option \<Rightarrow> event list \<times> source_kb option" where
  "create_local_pdf_knowledge_base w uploaded_file =
     (case uploaded_file of
        Some f \<Rightarrow>
          (let temp_pdf_path = tempfile_name w in
           ([TempFileWrite temp_pdf_path (file_data f)],
            Some (PDFKnowledgeBase (Groq ''llama3-70b-8192'' None) temp_pdf_path
                    (PgVector2 ''pdf_documents'' db_url GeminiEmbedder) (PDFReader True))))
      | None \<Rightarrow> ([], None))"

definition create_website_knowledge_base :: "string \<Rightarrow> source_kb option" where
  "create_website_knowledge_base website_url =
     (if truthy website_url then
        Some (WebsiteKnowledgeBase (Groq ''llama3-70b-8192'' None) [website_url] 10
                (PgVector2 ''website_documents'' db_url GeminiEmbedder))
      else None)"

definition create_combined_knowledge_base ::
    "world \<Rightarrow> widgets \<Rightarrow> event list \<times> combined_kb option" where
  "create_combined_knowledge_base w wd =
     (let sources0 = [];
          sources1 =
            (if truthy (pdf_url_input wd)
             then sources0 @ [create_pdf_url_knowledge_base (pdf_url_input wd)]
             else sources0);
          (ev, sources2) =
            (case uploaded_pdf_file wd of
               Some f \<Rightarrow>
                 (let (ev, kb) = create_local_pdf_knowledge_base w (uploaded_pdf_file wd)
                  in (ev, sources1 @ [kb]))
             | None \<Rightarrow> ([], sources1));
          sources3 =
            (if truthy (website_url_input wd)
             then sources2 @ [create_website_knowledge_base (website_url_input wd)]
             else sources2)
      in if sources3 = [] then (ev, None)
         else (ev, Some (CombinedKnowledgeBase (List.map_filter (\<lambda>s. s) sources3)
                           (PgVector2 ''combined_documents'' db_url GeminiEmbedder))))"

section \<open>Loading the knowledge base (lines 138 to 154)\<close>

definition storage :: pg_agent_storage where
  "storage = PgAgentStorage ''website_assistant'' db_url"

text \<open>
  The body of \<^verbatim>\<open>load_knowledge_base\<close>, as it runs when it is not served from the cache.
  Nothing encloses the call of \<^verbatim>\<open>load\<close>: when it raises, the exception leaves the function
  (\<open>Inl\<close>) and the \<^verbatim>\<open>return\<close> is not reached.
\<close>

definition load_knowledge_base_body ::
    "world \<Rightarrow> widgets \<Rightarrow> event list \<times> (py_exc + combined_kb option)" where
  "load_knowledge_base_body w wd =
     (let (ev, knowledge_base) = create_combined_knowledge_base w wd
      in case knowledge_base of
           Some kb \<Rightarrow>
             (case kb_load w kb of
                Some e \<Rightarrow> (ev @ [KBLoad kb True], Inl e)
              | None \<Rightarrow> (ev @ [KBLoad kb True], Inr knowledge_base))
         | None \<Rightarrow> (ev, Inr knowledge_base))"

text \<open>
  \<^verbatim>\<open>@st.cache_resource\<close> on a function without parameters keeps one entry for the whole
  process: \<open>None\<close> while the function has not returned yet, \<open>Some r\<close> once it has returned
  \<open>r\<close> (a handle or Python's \<^verbatim>\<open>None\<close>).  A call that finds the entry returns it and does
  not run the body.  A call whose body raises stores nothing and passes the exception on.
\<close>

type_synonym resource_cache = "combined_kb option option"

definition load_knowledge_base ::
    "world \<Rightarrow> widgets \<Rightarrow> resource_cache
      \<Rightarrow> resource_cache \<times> event list \<times> (py_exc + combined_kb option)" where
  "load_knowledge_base w wd cache =
     (case cache of
        Some result \<Rightarrow> (cache, [], Inr result)
      | None \<Rightarrow>
         (let (ev, returned) = load_knowledge_base_body w wd
          in case returned of
               Inr result \<Rightarrow> (Some result, ev, Inr result)
             | Inl e \<Rightarrow> (cache, ev, Inl e)))"

subsection \<open>Session state\<close>

text \<open>
  \<^verbatim>\<open>st.session_state\<close> holds two keys; a field is \<open>None\<close> while its key is absent.
\<close>

record session_state =
  ss_load_knowledge_base :: "bool option"
  ss_chat_history :: "(string \<times> string) list option"

definition load_requested :: "session_state \<Rightarrow> bool" where
  "load_requested ss = (case ss_load_knowledge_base ss of None \<Rightarrow> False | Some b \<Rightarrow> b)"

definition transcript :: "session_state \<Rightarrow> (string \<times> string) list" where
  "transcript ss = (case ss_chat_history ss of None \<Rightarrow> [] | Some h \<Rightarrow> h)"

definition success_message :: string where
  "success_message = ''Knowledge Base Loaded Successfully!''"

definition no_sources_warning :: string where
  "no_sources_warning =
     ''No knowledge bases available. Please configure at least one valid source.''"

text \<open>Lines 33 to 66: the title, the three source inputs and the load button.\<close>

definition input_section :: "widgets \<Rightarrow> session_state \<Rightarrow> session_state \<times> event list" where
  "input_section wd ss =
     ((if load_button wd then ss\<lparr>ss_load_knowledge_base := Some True\<rparr> else ss),
      [StMarkdown TitleBlock, StMarkdown InputSourcesHeading,
       StTextInput ''Enter PDF URL (Optional)'',
       StFileUploader ''Upload PDF File (Optional)'',
       StTextInput ''Enter Website URL (Optional)'',
       StButton ''Load Knowledge Base''])"

text \<open>
  Lines 148 to 154; the third component is the script's variable \<^verbatim>\<open>knowledge_base\<close> when
  the section is left normally, and the exception when \<^verbatim>\<open>load_knowledge_base\<close> raises.
\<close>

definition load_section ::
    "world \<Rightarrow> widgets \<Rightarrow> resource_cache \<Rightarrow> session_state
      \<Rightarrow> resource_cache \<times> event list \<times> (py_exc + combined_kb option)" where
  "load_section w wd cache ss =
     (if load_requested ss then
        (let (cache', ev, returned) = load_knowledge_base w wd cache
         in case returned of
              Inl e \<Rightarrow> (cache', ev, Inl e)
            | Inr knowledge_base \<Rightarrow>
               (case knowledge_base of
                  Some kb \<Rightarrow> (cache', ev @ [StSuccess success_message], Inr knowledge_base)
                | None \<Rightarrow> (cache', ev @ [StWarning no_sources_warning], Inr knowledge_base)))
      else (cache, [], Inr None))"

section \<open>The chat (lines 157 to 203)\<close>

definition too_large_message :: string where
  "too_large_message =
     ''The request is too large for the model to handle. Please shorten your query or provide more specific input.''"

text \<open>The agent of lines 169 to 179, for the knowledge base at hand.\<close>

definition assistant_for :: "string option \<Rightarrow> combined_kb \<Rightarrow> agent" where
  "assistant_for run_id knowledge_base =
     Agent (Groq ''llama3-70b-8192'' (Some GeminiEmbedder)) run_id ''user'' knowledge_base
       storage False True True 5000"

definition clean_response :: "run_response \<Rightarrow> string" where
  "clean_response response =
     (case response_content response of Some c \<Rightarrow> c | None \<Rightarrow> response_str response)"

text \<open>
  The handlers of the \<^verbatim>\<open>try\<close> statement, in the order of the source; an exception that no
  handler matches leaves the script (first component \<open>Some e\<close>).
\<close>

definition handle_exception :: "py_exc \<Rightarrow> py_exc option \<times> event list" where
  "handle_exception e =
     (if isinstance_APIStatusError e then
        (if str_in ''Request too large'' (exc_str e)
         then (None, [StError too_large_message])
         else (None, [StError (''An error occurred: '' @ exc_str e)]))
      else if isinstance_Exception e then
        (None, [StError (''An unexpected error occurred: '' @ exc_str e)])
      else (Some e, []))"

definition chat_section ::
    "world \<Rightarrow> string \<Rightarrow> combined_kb option \<Rightarrow> session_state
      \<Rightarrow> py_exc option \<times> session_state \<times> event list" where
  "chat_section w question knowledge_base ss0 =
     (let ev0 = [StMarkdown ChatHeading, StTextInput ''Ask a question:''];
          run_id = None;
          ss = (case ss_chat_history ss0 of
                  None \<Rightarrow> ss0\<lparr>ss_chat_history := Some []\<rparr>
                | Some h \<Rightarrow> ss0)
      in if truthy question then
           (case knowledge_base of
              None \<Rightarrow> (None, ss, ev0)
            | Some kb \<Rightarrow>
               (let assistant = assistant_for run_id kb;
                    ev1 = ev0 @ [AgentInit assistant, AgentRun assistant question]
                in case assistant_run w assistant question of
                     Inr response \<Rightarrow>
                       (None,
                        ss\<lparr>ss_chat_history :=
                             Some (transcript ss @
                               [(''You'', question), (''Assistant'', clean_response response)])\<rparr>,
                        ev1)
                   | Inl e \<Rightarrow>
                       (case handle_exception e of (exc, ev2) \<Rightarrow> (exc, ss, ev1 @ ev2))))
         else (None, ss, ev0))"

definition display_entry :: "string \<times> string \<Rightarrow> event" where
  "display_entry entry =
     (case entry of (speaker, text) \<Rightarrow>
        if speaker = ''You'' then StMarkdown (YouLine text) else StMarkdown (AssistantLine text))"

definition display_section :: "session_state \<Rightarrow> event list" where
  "display_section ss = map display_entry (transcript ss) @ [StMarkdown CustomCSS]"

section \<open>One execution of the script, and a session\<close>

record app_state =
  st_environ :: environ
  st_cache :: resource_cache
  st_session :: session_state

text \<open>
  The value of the script's variable \<^verbatim>\<open>knowledge_base\<close> after lines 148 to 154, in an
  execution that passes the credential check.  Line 148 sets it to \<^verbatim>\<open>None\<close>, and it keeps
  this value when \<^verbatim>\<open>load_knowledge_base\<close> raises on line 150.
\<close>

definition script_knowledge_base :: "world \<Rightarrow> widgets \<Rightarrow> app_state \<Rightarrow> combined_kb option" where
  "script_knowledge_base w wd st =
     (case snd (snd (load_section w wd (st_cache st) (fst (input_section wd (st_session st))))) of
        Inl e \<Rightarrow> None
      | Inr knowledge_base \<Rightarrow> knowledge_base)"

definition app :: "world \<Rightarrow> widgets \<Rightarrow> app_state \<Rightarrow> outcome \<times> app_state \<times> event list" where
  "app w wd st =
     (case check_api_keys (st_environ st) of (checked, env, ev0) \<Rightarrow>
        (case checked of
           Completed \<Rightarrow>
             (let (ss1, ev1) = input_section wd (st_session st);
                  (cache, ev2, loaded) = load_section w wd (st_cache st) ss1
              in case loaded of
                   Inl e \<Rightarrow>
                     (Raised e, \<lparr>st_environ = env, st_cache = cache, st_session = ss1\<rparr>,
                      ev0 @ ev1 @ ev2)
                 | Inr knowledge_base \<Rightarrow>
                     (let (exc, ss2, ev3) = chat_section w (user_input wd) knowledge_base ss1;
                          st' = \<lparr>st_environ = env, st_cache = cache, st_session = ss2\<rparr>
                      in case exc of
                           Some e \<Rightarrow> (Raised e, st', ev0 @ ev1 @ ev2 @ ev3)
                         | None \<Rightarrow>
                             (Completed, st', ev0 @ ev1 @ ev2 @ ev3 @ display_section ss2)))
         | Stopped \<Rightarrow> (Stopped, st\<lparr>st_environ := env\<rparr>, ev0)
         | Raised e \<Rightarrow> (Raised e, st\<lparr>st_environ := env\<rparr>, ev0)))"

text \<open>
  A session is a sequence of executions: each receives its own widget values and outside
  outcomes, and starts from the state the previous one left.
\<close>

type_synonym pass = "world \<times> widgets"

fun run_session :: "app_state \<Rightarrow> pass list \<Rightarrow> app_state" where
  "run_session st [] = st"
| "run_session st (p # ps) = run_session (fst (snd (app (fst p) (snd p) st))) ps"

fun session_events :: "app_state \<Rightarrow> pass list \<Rightarrow> event list" where
  "session_events st [] = []"
| "session_events st (p # ps) =
     snd (snd (app (fst p) (snd p) st)) @ session_events (fst (snd (app (fst p) (snd p) st))) ps"

definition fresh_session :: session_state where
  "fresh_session = \<lparr>ss_load_knowledge_base = None, ss_chat_history = None\<rparr>"

subsection \<open>Classes of events\<close>

fun is_index_load :: "event \<Rightarrow> bool" where
  "is_index_load (KBLoad kb recreate) = True"
| "is_index_load e = False"

fun is_temp_file_write :: "event \<Rightarrow> bool" where
  "is_temp_file_write (TempFileWrite path payload) = True"
| "is_temp_file_write e = False"

fun is_error :: "event \<Rightarrow> bool" where
  "is_error (StError m) = True"
| "is_error e = False"

fun is_load_result :: "event \<Rightarrow> bool" where
  "is_load_result (StSuccess m) = True"
| "is_load_result (StWarning m) = True"
| "is_load_result e = False"

fun is_chat_line :: "event \<Rightarrow> bool" where
  "is_chat_line (StMarkdown (YouLine t)) = True"
| "is_chat_line (StMarkdown (AssistantLine t)) = True"
| "is_chat_line e = False"

fun is_agent_event :: "event \<Rightarrow> bool" where
  "is_agent_event (AgentInit a) = True"
| "is_agent_event (AgentRun a q) = True"
| "is_agent_event e = False"

fun is_widget :: "event \<Rightarrow> bool" where
  "is_widget (StMarkdown m) = True"
| "is_widget (StTextInput l) = True"
| "is_widget (StFileUploader l) = True"
| "is_widget (StButton l) = True"
| "is_widget e = False"

text \<open>The transcript as pairs: a \<open>You\<close> entry, then an \<open>Assistant\<close> entry.\<close>

fun paired :: "(string \<times> string) list \<Rightarrow> bool" where
  "paired [] = True"
| "paired [e] = False"
| "paired (e1 # e2 # es) = (fst e1 = ''You'' \<and> fst e2 = ''Assistant'' \<and> paired es)"

subsection \<open>Concrete runs\<close>

text \<open>
  A process with both credentials set, and the executions used below to run the script on
  concrete inputs: a load from a PDF URL, an execution with every source input empty, and
  a question.
\<close>

definition env_ok :: environ where
  "env_ok = [''GROQ_API_KEY'' \<mapsto> ''gsk-1'', ''GOOGLE_API_KEY'' \<mapsto> ''AIza-1'']"

definition state0 :: app_state where
  "state0 = \<lparr>st_environ = env_ok, st_cache = None, st_session = fresh_session\<rparr>"

definition world_answer :: "run_response \<Rightarrow> world" where
  "world_answer r =
     \<lparr>tempfile_name = ''/tmp/tmpab12.pdf'', assistant_run = (\<lambda>a q. Inr r),
      kb_load = (\<lambda>kb. None)\<rparr>"

definition world_raises :: "py_exc \<Rightarrow> world" where
  "world_raises e =
     \<lparr>tempfile_name = ''/tmp/tmpab12.pdf'', assistant_run = (\<lambda>a q. Inl e),
      kb_load = (\<lambda>kb. None)\<rparr>"

text \<open>A world in which the vector database cannot be reached: every load raises.\<close>

definition world_load_fails :: world where
  "world_load_fails =
     \<lparr>tempfile_name = ''/tmp/tmpab12.pdf'', assistant_run = (\<lambda>a q. Inr (RunResponse None [])),
      kb_load = (\<lambda>kb. Some (PyExc OtherException ''connection refused''))\<rparr>"

definition widgets_rerun_pdf_url :: widgets where
  "widgets_rerun_pdf_url =
     \<lparr>pdf_url_input = ''https://example.com/a.pdf'', uploaded_pdf_file = None,
      website_url_input = [], load_button = False, user_input = []\<rparr>"

definition widgets_load_pdf_url :: widgets where
  "widgets_load_pdf_url =
     \<lparr>pdf_url_input = ''https://example.com/a.pdf'', uploaded_pdf_file = None,
      website_url_input = [], load_button = True, user_input = []\<rparr>"

definition widgets_all_empty :: widgets where
  "widgets_all_empty =
     \<lparr>pdf_url_input = [], uploaded_pdf_file = None, website_url_input = [],
      load_button = False, user_input = []\<rparr>"

definition widgets_question :: widgets where
  "widgets_question =
     \<lparr>pdf_url_input = ''https://example.com/a.pdf'', uploaded_pdf_file = None,
      website_url_input = [], load_button = False, user_input = ''What is machine learning?''\<rparr>"

definition kb_pdf_url :: combined_kb where
  "kb_pdf_url =
     CombinedKnowledgeBase
       [PDFUrlKnowledgeBase (Groq ''llama3-70b-8192'' None) [''https://example.com/a.pdf'']
          (PgVector2 ''pdf_url'' db_url GeminiEmbedder)]
       (PgVector2 ''combined_documents'' db_url GeminiEmbedder)"

text \<open>
  The state after the load button was pressed once with the PDF URL filled in: when the
  load returned, and when it raised.
\<close>

definition state_loaded :: app_state where
  "state_loaded =
     \<lparr>st_environ = env_ok, st_cache = Some (Some kb_pdf_url),
      st_session = \<lparr>ss_load_knowledge_base = Some True, ss_chat_history = Some []\<rparr>\<rparr>"

definition state_load_failed :: app_state where
  "state_load_failed =
     \<lparr>st_environ = env_ok, st_cache = None,
      st_session = \<lparr>ss_load_knowledge_base = Some True, ss_chat_history = None\<rparr>\<rparr>"

section \<open>Properties of the credential check and of one execution\<close>

lemma str_in_sublist: "str_in needle hay = sublist needle hay"
  by (induction hay) (simp_all add: sublist_Cons_right)

lemma str_in_iff: "str_in needle hay \<longleftrightarrow> (\<exists>before after. hay = before @ needle @ after)"
  by (simp add: str_in_sublist sublist_def)

lemma os_environ_setitem_same:
  "env k = Some v \<Longrightarrow> os_environ_setitem env k (os_getenv env k) = Inr env"
  by (simp add: os_environ_setitem_def os_getenv_def map_upd_triv)

lemma os_environ_setitem_missing:
  "env k = None \<Longrightarrow>
     os_environ_setitem env k (os_getenv env k) = Inl (PyExc TypeError ''str expected, not NoneType'')"
  by (simp add: os_environ_setitem_def os_getenv_def)

lemma check_api_keys_environ: "fst (snd (check_api_keys env)) = env"
proof (cases "env ''GROQ_API_KEY''")
  case None
  then show ?thesis
    by (simp add: check_api_keys_def os_environ_setitem_missing)
next
  case g: (Some g)
  show ?thesis
  proof (cases "env ''GOOGLE_API_KEY''")
    case None
    with g show ?thesis
      by (simp add: check_api_keys_def os_environ_setitem_missing os_environ_setitem_same)
  next
    case (Some k)
    with g show ?thesis
      by (simp add: check_api_keys_def os_environ_setitem_same os_environ_getitem_def)
  qed
qed

lemma check_api_keys_present:
  "env ''GROQ_API_KEY'' = Some g \<Longrightarrow> env ''GOOGLE_API_KEY'' = Some k \<Longrightarrow>
     check_api_keys env =
       (if g \<noteq> [] \<and> k \<noteq> [] then (Completed, env, [])
        else (Stopped, env, [StError missing_api_keys]))"
  by (simp add: check_api_keys_def os_environ_setitem_same os_environ_getitem_def truthy_def)

lemma check_api_keys_missing:
  "env ''GROQ_API_KEY'' = None \<or> env ''GOOGLE_API_KEY'' = None \<Longrightarrow>
     check_api_keys env = (Raised (PyExc TypeError ''str expected, not NoneType''), env, [])"
  by (cases "env ''GROQ_API_KEY''")
     (auto simp: check_api_keys_def os_environ_setitem_missing os_environ_setitem_same)

lemma check_api_keys_completed_iff:
  "fst (check_api_keys env) = Completed \<longleftrightarrow>
     (\<exists>g k. env ''GROQ_API_KEY'' = Some g \<and> g \<noteq> [] \<and> env ''GOOGLE_API_KEY'' = Some k \<and> k \<noteq> [])"
proof (cases "env ''GROQ_API_KEY'' = None \<or> env ''GOOGLE_API_KEY'' = None")
  case True
  then show ?thesis by (auto simp: check_api_keys_missing)
next
  case False
  then obtain g k where "env ''GROQ_API_KEY'' = Some g" "env ''GOOGLE_API_KEY'' = Some k"
    by auto
  then show ?thesis by (simp add: check_api_keys_present)
qed

lemma check_api_keys_completed_events:
  "fst (check_api_keys env) = Completed \<Longrightarrow> snd (snd (check_api_keys env)) = []"
  by (auto simp: check_api_keys_completed_iff check_api_keys_present)

lemma app_not_completed:
  "fst (check_api_keys (st_environ st)) \<noteq> Completed \<Longrightarrow>
     app w wd st = (fst (check_api_keys (st_environ st)), st, snd (snd (check_api_keys (st_environ st))))"
  using check_api_keys_environ [of "st_environ st"]
  by (cases "check_api_keys (st_environ st)"; cases "fst (check_api_keys (st_environ st))")
     (simp_all add: app_def)

lemma app_load_raises:
  assumes "fst (check_api_keys (st_environ st)) = Completed"
    and "snd (snd (load_section w wd (st_cache st) (fst (input_section wd (st_session st))))) = Inl e"
  shows "app w wd st =
    (Raised e,
     \<lparr>st_environ = st_environ st,
      st_cache = fst (load_section w wd (st_cache st) (fst (input_section wd (st_session st)))),
      st_session = fst (input_section wd (st_session st))\<rparr>,
     snd (input_section wd (st_session st))
       @ fst (snd (load_section w wd (st_cache st) (fst (input_section wd (st_session st))))))"
  using assms check_api_keys_environ [of "st_environ st"]
    check_api_keys_completed_events [of "st_environ st"]
  by (cases "check_api_keys (st_environ st)")
     (auto simp: app_def Let_def split: prod.splits)

lemma app_completed:
  assumes "fst (check_api_keys (st_environ st)) = Completed"
    and "snd (snd (load_section w wd (st_cache st) (fst (input_section wd (st_session st))))) = Inr kb"
  shows "app w wd st =
    (let ss1 = fst (input_section wd (st_session st));
         loaded = load_section w wd (st_cache st) ss1;
         chat = chat_section w (user_input wd) kb ss1;
         st' = \<lparr>st_environ = st_environ st, st_cache = fst loaded, st_session = fst (snd chat)\<rparr>;
         ev = snd (input_section wd (st_session st)) @ fst (snd loaded) @ snd (snd chat)
     in case fst chat of
          Some e \<Rightarrow> (Raised e, st', ev)
        | None \<Rightarrow> (Completed, st', ev @ display_section (fst (snd chat))))"
  using assms check_api_keys_environ [of "st_environ st"]
    check_api_keys_completed_events [of "st_environ st"]
  by (cases "check_api_keys (st_environ st)")
     (auto simp: app_def Let_def split: prod.splits option.splits)

subsection \<open>The sections of the script\<close>

lemma load_requested_input_section:
  "load_requested (fst (input_section wd ss)) = (load_button wd \<or> load_requested ss)"
  by (simp add: input_section_def load_requested_def)

lemma chat_history_input_section:
  "ss_chat_history (fst (input_section wd ss)) = ss_chat_history ss"
  by (simp add: input_section_def)

lemma transcript_input_section: "transcript (fst (input_section wd ss)) = transcript ss"
  by (simp add: transcript_def chat_history_input_section)

lemma load_knowledge_base_hit: "load_knowledge_base w wd (Some r) = (Some r, [], Inr r)"
  by (simp add: load_knowledge_base_def)

lemma load_knowledge_base_miss:
  "load_knowledge_base w wd None =
     (case snd (load_knowledge_base_body w wd) of
        Inr result \<Rightarrow> (Some result, fst (load_knowledge_base_body w wd), Inr result)
      | Inl e \<Rightarrow> (None, fst (load_knowledge_base_body w wd), Inl e))"
  by (simp add: load_knowledge_base_def split: prod.splits sum.splits)

lemma load_knowledge_base_fills_cache:
  "snd (snd (load_knowledge_base w wd cache)) = Inr r \<Longrightarrow>
     fst (load_knowledge_base w wd cache) = Some r"
  by (cases cache)
     (auto simp: load_knowledge_base_hit load_knowledge_base_miss split: sum.splits)

lemma load_knowledge_base_raises:
  "snd (snd (load_knowledge_base w wd cache)) = Inl e \<Longrightarrow>
     cache = None \<and> fst (load_knowledge_base w wd cache) = None"
  by (cases cache)
     (auto simp: load_knowledge_base_hit load_knowledge_base_miss split: sum.splits)

lemma load_section_not_requested:
  "\<not> load_requested ss \<Longrightarrow> load_section w wd cache ss = (cache, [], Inr None)"
  by (simp add: load_section_def)

lemma load_section_requested:
  "load_requested ss \<Longrightarrow>
     load_section w wd cache ss =
       (fst (load_knowledge_base w wd cache),
        fst (snd (load_knowledge_base w wd cache)) @
          (case snd (snd (load_knowledge_base w wd cache)) of
             Inl e \<Rightarrow> []
           | Inr (Some kb) \<Rightarrow> [StSuccess success_message]
           | Inr None \<Rightarrow> [StWarning no_sources_warning]),
        snd (snd (load_knowledge_base w wd cache)))"
  by (simp add: load_section_def split: prod.splits option.splits sum.splits)

lemma load_section_hit:
  "fst (load_section w wd (Some r) ss) = Some r
   \<and> filter is_index_load (fst (snd (load_section w wd (Some r) ss))) = []
   \<and> filter is_temp_file_write (fst (snd (load_section w wd (Some r) ss))) = []
   \<and> snd (snd (load_section w wd (Some r) ss)) = Inr (if load_requested ss then r else None)"
  by (cases "load_requested ss")
     (simp_all add: load_section_not_requested load_section_requested load_knowledge_base_hit
       split: option.splits)

lemma create_combined_knowledge_base_empty:
  "pdf_url_input wd = [] \<Longrightarrow> uploaded_pdf_file wd = None \<Longrightarrow> website_url_input wd = [] \<Longrightarrow>
     create_combined_knowledge_base w wd = ([], None)"
  by (simp add: create_combined_knowledge_base_def truthy_def)

lemma create_combined_knowledge_base_populated:
  "pdf_url_input wd \<noteq> [] \<or> uploaded_pdf_file wd \<noteq> None \<or> website_url_input wd \<noteq> [] \<Longrightarrow>
     \<exists>kb. snd (create_combined_knowledge_base w wd) = Some kb"
  by (auto simp: create_combined_knowledge_base_def truthy_def Let_def
      create_local_pdf_knowledge_base_def split: option.splits prod.splits)

lemma create_combined_knowledge_base_events:
  "filter is_index_load (fst (create_combined_knowledge_base w wd)) = []"
  by (auto simp: create_combined_knowledge_base_def truthy_def Let_def
      create_local_pdf_knowledge_base_def split: option.splits prod.splits)

lemma load_knowledge_base_body_None:
  "snd (create_combined_knowledge_base w wd) = None \<Longrightarrow>
     load_knowledge_base_body w wd = (fst (create_combined_knowledge_base w wd), Inr None)"
  by (cases "create_combined_knowledge_base w wd") (simp add: load_knowledge_base_body_def)

lemma load_knowledge_base_body_Some:
  "snd (create_combined_knowledge_base w wd) = Some kb \<Longrightarrow>
     load_knowledge_base_body w wd =
       (fst (create_combined_knowledge_base w wd) @ [KBLoad kb True],
        case kb_load w kb of Some e \<Rightarrow> Inl e | None \<Rightarrow> Inr (Some kb))"
  by (cases "create_combined_knowledge_base w wd")
     (simp add: load_knowledge_base_body_def split: option.splits)

lemma load_knowledge_base_body_raises:
  "snd (load_knowledge_base_body w wd) = Inl e \<Longrightarrow>
     \<exists>kb. snd (create_combined_knowledge_base w wd) = Some kb \<and> kb_load w kb = Some e
       \<and> filter is_index_load (fst (load_knowledge_base_body w wd)) = [KBLoad kb True]"
  by (cases "snd (create_combined_knowledge_base w wd)")
     (auto simp: load_knowledge_base_body_None load_knowledge_base_body_Some
        create_combined_knowledge_base_events split: option.splits)


lemma chat_section_flag:
  "ss_load_knowledge_base (fst (snd (chat_section w q kb ss))) = ss_load_knowledge_base ss"
  by (simp add: chat_section_def Let_def split: option.splits sum.splits prod.splits)

lemma chat_section_history_set:
  "ss_chat_history (fst (snd (chat_section w q kb ss))) =
     Some (transcript (fst (snd (chat_section w q kb ss))))"
  by (simp add: chat_section_def Let_def transcript_def split: option.splits sum.splits prod.splits)

lemma chat_section_no_knowledge_base:
  "transcript (fst (snd (chat_section w q None ss))) = transcript ss
   \<and> snd (snd (chat_section w q None ss)) = [StMarkdown ChatHeading, StTextInput ''Ask a question:'']
   \<and> fst (chat_section w q None ss) = None"
  by (simp add: chat_section_def Let_def transcript_def split: option.splits)

lemma chat_section_no_question:
  "transcript (fst (snd (chat_section w [] kb ss))) = transcript ss
   \<and> snd (snd (chat_section w [] kb ss)) = [StMarkdown ChatHeading, StTextInput ''Ask a question:'']
   \<and> fst (chat_section w [] kb ss) = None"
  by (simp add: chat_section_def Let_def transcript_def truthy_def split: option.splits)

lemma chat_section_answer:
  "q \<noteq> [] \<Longrightarrow> assistant_run w (assistant_for None kb) q = Inr r \<Longrightarrow>
     transcript (fst (snd (chat_section w q (Some kb) ss))) =
       transcript ss @ [(''You'', q), (''Assistant'', clean_response r)]
     \<and> snd (snd (chat_section w q (Some kb) ss)) =
         [StMarkdown ChatHeading, StTextInput ''Ask a question:'',
          AgentInit (assistant_for None kb), AgentRun (assistant_for None kb) q]
     \<and> fst (chat_section w q (Some kb) ss) = None"
  by (simp add: chat_section_def Let_def transcript_def truthy_def split: option.splits)

lemma chat_section_exception:
  "q \<noteq> [] \<Longrightarrow> assistant_run w (assistant_for None kb) q = Inl e \<Longrightarrow>
     transcript (fst (snd (chat_section w q (Some kb) ss))) = transcript ss
     \<and> snd (snd (chat_section w q (Some kb) ss)) =
         [StMarkdown ChatHeading, StTextInput ''Ask a question:'',
          AgentInit (assistant_for None kb), AgentRun (assistant_for None kb) q]
         @ snd (handle_exception e)
     \<and> fst (chat_section w q (Some kb) ss) = fst (handle_exception e)"
  by (simp add: chat_section_def Let_def transcript_def truthy_def split: option.splits prod.splits)

lemma chat_section_step:
  "transcript (fst (snd (chat_section w q kb ss))) = transcript ss
   \<or> (\<exists>a. transcript (fst (snd (chat_section w q kb ss))) =
         transcript ss @ [(''You'', q), (''Assistant'', a)])"
proof (cases kb)
  case None
  then show ?thesis by (simp add: chat_section_no_knowledge_base)
next
  case (Some k)
  show ?thesis
  proof (cases "q = []")
    case True
    then show ?thesis by (simp add: chat_section_no_question)
  next
    case False
    then show ?thesis
      using chat_section_answer [of q w k _ ss] chat_section_exception [of q w k _ ss] Some
      by (cases "assistant_run w (assistant_for None k) q") auto
  qed
qed

lemma paired_append:
  "paired h \<Longrightarrow> paired (h @ [(''You'', q), (''Assistant'', a)])"
  by (induction h rule: paired.induct) simp_all

lemma paired_even: "paired h \<Longrightarrow> even (length h)"
  by (induction h rule: paired.induct) simp_all

subsection \<open>One execution\<close>

lemma app_environ: "st_environ (fst (snd (app w wd st))) = st_environ st"
proof (cases "fst (check_api_keys (st_environ st)) = Completed")
  case True
  then show ?thesis
    by (cases "snd (snd (load_section w wd (st_cache st) (fst (input_section wd (st_session st)))))")
       (simp_all add: app_completed app_load_raises Let_def split: option.splits)
next
  case False
  then show ?thesis by (simp add: app_not_completed)
qed

lemma app_cache:
  "fst (check_api_keys (st_environ st)) = Completed \<Longrightarrow>
     st_cache (fst (snd (app w wd st))) =
       fst (load_section w wd (st_cache st) (fst (input_section wd (st_session st))))"
  by (cases "snd (snd (load_section w wd (st_cache st) (fst (input_section wd (st_session st)))))")
     (simp_all add: app_completed app_load_raises Let_def split: option.splits)

lemma app_session:
  "fst (check_api_keys (st_environ st)) = Completed \<Longrightarrow>
     st_session (fst (snd (app w wd st))) =
       (case snd (snd (load_section w wd (st_cache st) (fst (input_section wd (st_session st))))) of
          Inl e \<Rightarrow> fst (input_section wd (st_session st))
        | Inr kb \<Rightarrow>
            fst (snd (chat_section w (user_input wd) kb (fst (input_section wd (st_session st))))))"
  by (cases "snd (snd (load_section w wd (st_cache st) (fst (input_section wd (st_session st)))))")
     (simp_all add: app_completed app_load_raises Let_def split: option.splits)

lemma app_outcome:
  "fst (check_api_keys (st_environ st)) = Completed \<Longrightarrow>
     fst (app w wd st) =
       (case snd (snd (load_section w wd (st_cache st) (fst (input_section wd (st_session st))))) of
          Inl e \<Rightarrow> Raised e
        | Inr kb \<Rightarrow>
            (case fst (chat_section w (user_input wd) kb (fst (input_section wd (st_session st)))) of
               Some e \<Rightarrow> Raised e
             | None \<Rightarrow> Completed))"
  by (cases "snd (snd (load_section w wd (st_cache st) (fst (input_section wd (st_session st)))))")
     (simp_all add: app_completed app_load_raises Let_def split: option.splits)

lemma app_events:
  "fst (check_api_keys (st_environ st)) = Completed \<Longrightarrow>
     snd (snd (app w wd st)) =
       snd (input_section wd (st_session st))
       @ fst (snd (load_section w wd (st_cache st) (fst (input_section wd (st_session st)))))
       @ (case snd (snd (load_section w wd (st_cache st) (fst (input_section wd (st_session st))))) of
            Inl e \<Rightarrow> []
          | Inr kb \<Rightarrow>
              snd (snd (chat_section w (user_input wd) kb (fst (input_section wd (st_session st)))))
              @ (case fst (app w wd st) of
                   Completed \<Rightarrow> display_section (st_session (fst (snd (app w wd st))))
                 | _ \<Rightarrow> []))"
  by (cases "snd (snd (load_section w wd (st_cache st) (fst (input_section wd (st_session st)))))")
     (simp_all add: app_completed app_load_raises Let_def split: option.splits)

lemma script_knowledge_base_Some:
  "script_knowledge_base w wd st = Some kb \<Longrightarrow>
     snd (snd (load_section w wd (st_cache st) (fst (input_section wd (st_session st)))))
       = Inr (Some kb)"
  by (simp add: script_knowledge_base_def split: sum.splits)

lemma script_knowledge_base_None:
  "script_knowledge_base w wd st = None \<Longrightarrow>
     snd (snd (load_section w wd (st_cache st) (fst (input_section wd (st_session st)))))
       = Inr None
     \<or> (\<exists>e. snd (snd (load_section w wd (st_cache st) (fst (input_section wd (st_session st)))))
            = Inl e)"
  by (simp add: script_knowledge_base_def split: sum.splits)

lemma app_transcript_step:
  "transcript (st_session (fst (snd (app w wd st)))) = transcript (st_session st)
   \<or> (\<exists>a. transcript (st_session (fst (snd (app w wd st)))) =
         transcript (st_session st) @ [(''You'', user_input wd), (''Assistant'', a)])"
proof (cases "fst (check_api_keys (st_environ st)) = Completed")
  case True
  show ?thesis
  proof (cases "snd (snd (load_section w wd (st_cache st) (fst (input_section wd (st_session st)))))")
    case (Inl e)
    with True show ?thesis
      by (simp add: app_session transcript_input_section)
  next
    case (Inr kb)
    with True show ?thesis
      using chat_section_step [of w "user_input wd" kb "fst (input_section wd (st_session st))"]
      by (simp add: app_session transcript_input_section)
  qed
next
  case False
  then show ?thesis by (simp add: app_not_completed)
qed

lemma app_load_requested:
  "load_requested (st_session (fst (snd (app w wd st)))) =
     (load_requested (st_session st)
      \<or> (fst (check_api_keys (st_environ st)) = Completed \<and> load_button wd))"
proof (cases "fst (check_api_keys (st_environ st)) = Completed")
  case True
  have "ss_load_knowledge_base (st_session (fst (snd (app w wd st)))) =
      ss_load_knowledge_base (fst (input_section wd (st_session st)))"
    using True
    by (simp add: app_session chat_section_flag split: sum.splits)
  then have "load_requested (st_session (fst (snd (app w wd st)))) =
      load_requested (fst (input_section wd (st_session st)))"
    by (simp add: load_requested_def)
  with True show ?thesis
    by (auto simp: load_requested_input_section)
next
  case False
  then show ?thesis by (simp add: app_not_completed)
qed

lemma filter_input_section:
  "filter is_error (snd (input_section wd ss)) = []"
  "filter is_index_load (snd (input_section wd ss)) = []"
  "filter is_temp_file_write (snd (input_section wd ss)) = []"
  "filter is_agent_event (snd (input_section wd ss)) = []"
  "filter is_load_result (snd (input_section wd ss)) = []"
  "filter is_chat_line (snd (input_section wd ss)) = []"
  by (simp_all add: input_section_def)

lemma filter_display_section:
  "filter is_error (display_section ss) = []"
  "filter is_index_load (display_section ss) = []"
  "filter is_temp_file_write (display_section ss) = []"
  "filter is_agent_event (display_section ss) = []"
  "filter is_load_result (display_section ss) = []"
  "filter is_chat_line (display_section ss) = map display_entry (transcript ss)"
  by (simp_all add: display_section_def display_entry_def filter_empty_conv filter_id_conv
      split: prod.splits)

lemma create_combined_knowledge_base_quiet:
  "filter is_error (fst (create_combined_knowledge_base w wd)) = []"
  "filter is_agent_event (fst (create_combined_knowledge_base w wd)) = []"
  "filter is_load_result (fst (create_combined_knowledge_base w wd)) = []"
  "filter is_chat_line (fst (create_combined_knowledge_base w wd)) = []"
  by (auto simp: create_combined_knowledge_base_def truthy_def Let_def
      create_local_pdf_knowledge_base_def split: option.splits prod.splits)

lemma load_knowledge_base_body_quiet:
  "filter is_error (fst (load_knowledge_base_body w wd)) = []"
  "filter is_agent_event (fst (load_knowledge_base_body w wd)) = []"
  "filter is_load_result (fst (load_knowledge_base_body w wd)) = []"
  "filter is_chat_line (fst (load_knowledge_base_body w wd)) = []"
  by (cases "snd (create_combined_knowledge_base w wd)";
      simp add: load_knowledge_base_body_None load_knowledge_base_body_Some
        create_combined_knowledge_base_quiet)+

lemma load_knowledge_base_quiet:
  "filter is_error (fst (snd (load_knowledge_base w wd cache))) = []"
  "filter is_agent_event (fst (snd (load_knowledge_base w wd cache))) = []"
  "filter is_load_result (fst (snd (load_knowledge_base w wd cache))) = []"
  "filter is_chat_line (fst (snd (load_knowledge_base w wd cache))) = []"
  by (cases cache;
      simp add: load_knowledge_base_hit load_knowledge_base_miss load_knowledge_base_body_quiet
        split: sum.splits)+

lemma load_section_quiet:
  "filter is_error (fst (snd (load_section w wd cache ss))) = []"
  "filter is_agent_event (fst (snd (load_section w wd cache ss))) = []"
  "filter is_chat_line (fst (snd (load_section w wd cache ss))) = []"
  by (cases "load_requested ss";
      simp add: load_section_requested load_section_not_requested load_knowledge_base_quiet
        split: option.splits sum.splits)+

lemma load_section_result:
  "filter is_load_result (fst (snd (load_section w wd cache ss))) =
     (if load_requested ss then
        (case snd (snd (load_section w wd cache ss)) of
           Inl e \<Rightarrow> []
         | Inr (Some kb) \<Rightarrow> [StSuccess success_message]
         | Inr None \<Rightarrow> [StWarning no_sources_warning])
      else [])"
  by (cases "load_requested ss")
     (simp_all add: load_section_requested load_section_not_requested load_knowledge_base_quiet
        split: option.splits sum.splits)

lemma chat_section_quiet:
  "filter is_index_load (snd (snd (chat_section w q kb ss))) = []"
  "filter is_temp_file_write (snd (snd (chat_section w q kb ss))) = []"
  "filter is_load_result (snd (snd (chat_section w q kb ss))) = []"
  "filter is_chat_line (snd (snd (chat_section w q kb ss))) = []"
  by (simp_all add: chat_section_def handle_exception_def Let_def
      split: option.splits sum.splits prod.splits)

subsection \<open>The cache and the session\<close>

lemma script_knowledge_base_requested:
  "load_button wd \<or> load_requested (st_session st) \<Longrightarrow>
     script_knowledge_base w wd st =
       (case snd (snd (load_knowledge_base w wd (st_cache st))) of
          Inl e \<Rightarrow> None
        | Inr knowledge_base \<Rightarrow> knowledge_base)"
  by (simp add: script_knowledge_base_def load_section_requested load_requested_input_section)

lemma script_knowledge_base_hit:
  "st_cache st = Some r \<Longrightarrow>
     script_knowledge_base w wd st =
       (if load_button wd \<or> load_requested (st_session st) then r else None)"
  by (simp add: script_knowledge_base_def load_section_hit load_requested_input_section)

lemma app_index_loads:
  "fst (check_api_keys (st_environ st)) = Completed \<Longrightarrow>
     filter is_index_load (snd (snd (app w wd st))) =
       filter is_index_load
         (fst (snd (load_section w wd (st_cache st) (fst (input_section wd (st_session st))))))"
  by (simp add: app_events filter_input_section chat_section_quiet filter_display_section
      split: outcome.splits sum.splits)

lemma app_temp_file_writes:
  "fst (check_api_keys (st_environ st)) = Completed \<Longrightarrow>
     filter is_temp_file_write (snd (snd (app w wd st))) =
       filter is_temp_file_write
         (fst (snd (load_section w wd (st_cache st) (fst (input_section wd (st_session st))))))"
  by (simp add: app_events filter_input_section chat_section_quiet filter_display_section
      split: outcome.splits sum.splits)

lemma app_load_results:
  "fst (check_api_keys (st_environ st)) = Completed \<Longrightarrow>
     filter is_load_result (snd (snd (app w wd st))) =
       filter is_load_result
         (fst (snd (load_section w wd (st_cache st) (fst (input_section wd (st_session st))))))"
  by (simp add: app_events filter_input_section chat_section_quiet filter_display_section
      split: outcome.splits sum.splits)

lemma check_not_completed_events:
  "fst (check_api_keys env) \<noteq> Completed \<Longrightarrow>
     snd (snd (check_api_keys env)) = [] \<or> snd (snd (check_api_keys env)) = [StError missing_api_keys]"
  using check_api_keys_missing [of env] check_api_keys_present [of env]
  by (cases "env ''GROQ_API_KEY''"; cases "env ''GOOGLE_API_KEY''") (auto split: if_splits)

lemma app_not_completed_quiet:
  assumes "fst (check_api_keys (st_environ st)) \<noteq> Completed"
  shows "filter is_index_load (snd (snd (app w wd st))) = []"
    and "filter is_temp_file_write (snd (snd (app w wd st))) = []"
    and "filter is_widget (snd (snd (app w wd st))) = []"
  using check_not_completed_events [OF assms] assms
  by (auto simp: app_not_completed)

lemma app_cache_hit:
  assumes "st_cache st = Some r"
  shows "st_cache (fst (snd (app w wd st))) = Some r"
    and "filter is_index_load (snd (snd (app w wd st))) = []"
    and "filter is_temp_file_write (snd (snd (app w wd st))) = []"
proof -
  show "st_cache (fst (snd (app w wd st))) = Some r"
    using assms
    by (cases "fst (check_api_keys (st_environ st)) = Completed")
       (simp_all add: app_cache app_not_completed load_section_hit)
  show "filter is_index_load (snd (snd (app w wd st))) = []"
    using assms
    by (cases "fst (check_api_keys (st_environ st)) = Completed")
       (simp_all add: app_index_loads app_not_completed_quiet load_section_hit)
  show "filter is_temp_file_write (snd (snd (app w wd st))) = []"
    using assms
    by (cases "fst (check_api_keys (st_environ st)) = Completed")
       (simp_all add: app_temp_file_writes app_not_completed_quiet load_section_hit)
qed

lemma run_session_cache_hit:
  "st_cache st = Some r \<Longrightarrow>
     st_cache (run_session st ps) = Some r
     \<and> filter is_index_load (session_events st ps) = []
     \<and> filter is_temp_file_write (session_events st ps) = []"
proof (induction ps arbitrary: st)
  case Nil
  then show ?case by simp
next
  case (Cons p ps)
  have "st_cache (fst (snd (app (fst p) (snd p) st))) = Some r"
    using Cons.prems by (rule app_cache_hit)
  from Cons.IH [OF this] app_cache_hit(2,3) [OF Cons.prems, of "fst p" "snd p"]
  show ?case by simp
qed

lemma run_session_load_requested:
  "load_requested (st_session st) \<Longrightarrow> load_requested (st_session (run_session st ps))"
  by (induction ps arbitrary: st) (simp_all add: app_load_requested)

lemma run_session_environ: "st_environ (run_session st ps) = st_environ st"
  by (induction ps arbitrary: st) (simp_all add: app_environ)

lemma app_paired:
  "paired (transcript (st_session st)) \<Longrightarrow>
     paired (transcript (st_session (fst (snd (app w wd st)))))"
  using app_transcript_step [of w wd st] by (auto simp: paired_append)

lemma run_session_paired:
  "paired (transcript (st_session st)) \<Longrightarrow> paired (transcript (st_session (run_session st ps)))"
  by (induction ps arbitrary: st) (simp_all add: app_paired)




subsection \<open>The concrete runs\<close>

lemma env_ok_completed: "check_api_keys env_ok = (Completed, env_ok, [])"
proof -
  have g: "env_ok ''GROQ_API_KEY'' = Some ''gsk-1''"
    by (simp add: env_ok_def)
  have k: "env_ok ''GOOGLE_API_KEY'' = Some ''AIza-1''"
    by (simp add: env_ok_def)
  show ?thesis
    using check_api_keys_present [OF g k] by simp
qed

lemma state_loaded_reachable:
  "run_session state0 [(world_answer r, widgets_load_pdf_url)] = state_loaded"
  by (simp add: state0_def state_loaded_def app_def env_ok_completed input_section_def
      widgets_load_pdf_url_def fresh_session_def load_section_def load_requested_def
      load_knowledge_base_def load_knowledge_base_body_def create_combined_knowledge_base_def
      create_pdf_url_knowledge_base_def chat_section_def truthy_def Let_def kb_pdf_url_def
      world_answer_def)

lemma script_knowledge_base_state_loaded:
  "script_knowledge_base w wd state_loaded = Some kb_pdf_url"
  by (simp add: script_knowledge_base_def state_loaded_def load_section_hit
      input_section_def load_requested_def)

lemma handle_exception_errors:
  "filter is_error (snd (handle_exception e)) = snd (handle_exception e)"
  "filter is_agent_event (snd (handle_exception e)) = []"
  by (simp_all add: handle_exception_def)

lemma state_loaded_completed: "fst (check_api_keys (st_environ state_loaded)) = Completed"
  by (simp add: state_loaded_def env_ok_completed)

lemma script_knowledge_base_state0:
  "script_knowledge_base (world_answer r) widgets_load_pdf_url state0 = Some kb_pdf_url"
  by (simp add: script_knowledge_base_def state0_def input_section_def widgets_load_pdf_url_def
      load_section_def load_requested_def load_knowledge_base_def load_knowledge_base_body_def
      create_combined_knowledge_base_def create_pdf_url_knowledge_base_def truthy_def
      kb_pdf_url_def Let_def fresh_session_def world_answer_def)

lemma load_section_state_loaded:
  "snd (snd (load_section w wd (st_cache state_loaded)
      (fst (input_section wd (st_session state_loaded))))) = Inr (Some kb_pdf_url)"
  using script_knowledge_base_state_loaded by (rule script_knowledge_base_Some)

lemma state0_completed: "fst (check_api_keys (st_environ state0)) = Completed"
  by (simp add: state0_def env_ok_completed)

lemma state_load_failed_completed:
  "fst (check_api_keys (st_environ state_load_failed)) = Completed"
  by (simp add: state_load_failed_def env_ok_completed)

lemma create_combined_knowledge_base_pdf_url:
  "create_combined_knowledge_base w widgets_load_pdf_url = ([], Some kb_pdf_url)"
  "create_combined_knowledge_base w widgets_rerun_pdf_url = ([], Some kb_pdf_url)"
  by (simp_all add: create_combined_knowledge_base_def create_pdf_url_knowledge_base_def
      truthy_def widgets_load_pdf_url_def widgets_rerun_pdf_url_def kb_pdf_url_def)

lemma load_section_first_load:
  assumes "load_requested ss" and "snd (create_combined_knowledge_base w wd) = Some kb"
  shows "load_section w wd None ss =
    (case kb_load w kb of
       None \<Rightarrow>
         (Some (Some kb),
          fst (create_combined_knowledge_base w wd) @ [KBLoad kb True, StSuccess success_message],
          Inr (Some kb))
     | Some e \<Rightarrow> (None, fst (create_combined_knowledge_base w wd) @ [KBLoad kb True], Inl e))"
  using assms
  by (simp add: load_section_requested load_knowledge_base_miss load_knowledge_base_body_Some
      split: option.splits)

lemma load_section_raises:
  assumes "snd (snd (load_section w wd cache ss)) = Inl e"
  shows "cache = None" and "fst (load_section w wd cache ss) = None"
    and "filter is_index_load (fst (snd (load_section w wd cache ss))) \<noteq> []"
    and "filter is_load_result (fst (snd (load_section w wd cache ss))) = []"
proof -
  have req: "load_requested ss"
    using assms by (cases "load_requested ss") (simp_all add: load_section_not_requested)
  then have l: "snd (snd (load_knowledge_base w wd cache)) = Inl e"
    using assms by (simp add: load_section_requested)
  from load_knowledge_base_raises [OF l] show c: "cache = None"
    and "fst (load_section w wd cache ss) = None"
    using req by (auto simp: load_section_requested)
  from l c have b: "snd (load_knowledge_base_body w wd) = Inl e"
    by (simp add: load_knowledge_base_miss split: sum.splits)
  from load_knowledge_base_body_raises [OF b] req c b
  show "filter is_index_load (fst (snd (load_section w wd cache ss))) \<noteq> []"
    by (auto simp: load_section_requested load_knowledge_base_miss)
  from req l show "filter is_load_result (fst (snd (load_section w wd cache ss))) = []"
    by (simp add: load_section_requested load_knowledge_base_quiet)
qed

lemma state_load_failed_reachable:
  "fst (snd (app world_load_fails widgets_load_pdf_url state0)) = state_load_failed"
proof -
  have req: "load_requested (fst (input_section widgets_load_pdf_url (st_session state0)))"
    by (simp add: load_requested_input_section widgets_load_pdf_url_def)
  have l: "load_section world_load_fails widgets_load_pdf_url None
             (fst (input_section widgets_load_pdf_url (st_session state0))) =
           (None, [KBLoad kb_pdf_url True], Inl (PyExc OtherException ''connection refused''))"
    using load_section_first_load [OF req, of world_load_fails widgets_load_pdf_url kb_pdf_url]
    by (simp add: create_combined_knowledge_base_pdf_url world_load_fails_def)
  have c: "st_cache state0 = None"
    by (simp add: state0_def)
  show ?thesis
    using app_load_raises [OF state0_completed, of world_load_fails widgets_load_pdf_url] l c
    by (simp add: state0_def state_load_failed_def input_section_def widgets_load_pdf_url_def
        fresh_session_def)
qed

lemma reload_after_failed_load:
  "filter is_index_load
     (snd (snd (app (world_answer r) widgets_rerun_pdf_url state_load_failed)))
     = [KBLoad kb_pdf_url True]"
proof -
  have req: "load_requested (fst (input_section widgets_rerun_pdf_url (st_session state_load_failed)))"
    by (simp add: input_section_def widgets_rerun_pdf_url_def state_load_failed_def
        load_requested_def)
  have c: "st_cache state_load_failed = None"
    by (simp add: state_load_failed_def)
  show ?thesis
    using load_section_first_load [OF req, of "world_answer r" widgets_rerun_pdf_url kb_pdf_url]
    by (simp add: app_index_loads state_load_failed_completed c
        create_combined_knowledge_base_pdf_url world_answer_def)
qed


section \<open>Results about the credential check\<close>

text \<open>
  Where the check behaves as specified: with both variables set, an empty one stops the
  script with the message before any widget, and two non-empty ones let the script go on
  to its first widget.
\<close>

lemma app_empty_credential_stops:
  "st_environ st ''GROQ_API_KEY'' = Some g \<Longrightarrow> st_environ st ''GOOGLE_API_KEY'' = Some k \<Longrightarrow>
   g = [] \<or> k = [] \<Longrightarrow> app w wd st = (Stopped, st, [StError missing_api_keys])"
  using check_api_keys_present [of "st_environ st" g k]
  by (auto simp: app_not_completed)

lemma app_credentials_present_proceeds:
  assumes "st_environ st ''GROQ_API_KEY'' = Some g" and "st_environ st ''GOOGLE_API_KEY'' = Some k"
    and "g \<noteq> []" and "k \<noteq> []"
  shows "fst (check_api_keys (st_environ st)) = Completed
     \<and> fst (app w wd st) \<noteq> Stopped
     \<and> hd (snd (snd (app w wd st))) = StMarkdown TitleBlock"
proof -
  have c: "fst (check_api_keys (st_environ st)) = Completed"
    using assms by (simp add: check_api_keys_present)
  then show ?thesis
    by (simp add: app_outcome app_events input_section_def split: option.splits sum.splits)
qed

text \<open>
  C1.  A missing credential is meant to end in the message \<open>Missing API Keys\<close> and a halt
  before any widget.  The script does halt before any widget, but by an exception: with
  \<^verbatim>\<open>GROQ_API_KEY\<close> unset, \<^verbatim>\<open>os.getenv\<close> returns \<^verbatim>\<open>None\<close> and the assignment to
  \<^verbatim>\<open>os.environ\<close> on line 21 raises \<^verbatim>\<open>TypeError\<close>, so the check of line 25 is never reached
  and no message is emitted.
\<close>

theorem missing_credential_raises_type_error:
  "app w wd \<lparr>st_environ = [''GOOGLE_API_KEY'' \<mapsto> ''AIza-1''], st_cache = None,
             st_session = fresh_session\<rparr> =
     (Raised (PyExc TypeError ''str expected, not NoneType''),
      \<lparr>st_environ = [''GOOGLE_API_KEY'' \<mapsto> ''AIza-1''], st_cache = None,
       st_session = fresh_session\<rparr>,
      [])"
  by (simp add: app_not_completed check_api_keys_missing)

section \<open>Results about the chat\<close>

text \<open>
  C2 (as stated, refuted).  A question submitted while a knowledge base is loaded, and
  answered by an object whose \<^verbatim>\<open>content\<close> is the empty string: the two entries are appended,
  and the assistant's text is empty.
\<close>

theorem empty_answer_counterexample:
  "script_knowledge_base (world_answer (RunResponse (Some []) ''RunResponse(content=)''))
      widgets_question state_loaded = Some kb_pdf_url
   \<and> assistant_run (world_answer (RunResponse (Some []) ''RunResponse(content=)''))
        (assistant_for None kb_pdf_url) ''What is machine learning?''
        = Inr (RunResponse (Some []) ''RunResponse(content=)'')
   \<and> transcript (st_session (fst (snd (app
        (world_answer (RunResponse (Some []) ''RunResponse(content=)''))
        widgets_question state_loaded)))) =
       [(''You'', ''What is machine learning?''), (''Assistant'', [])]"
proof -
  let ?r = "RunResponse (Some []) ''RunResponse(content=)''"
  have c: "fst (check_api_keys (st_environ state_loaded)) = Completed"
    by (simp add: state_loaded_def env_ok_completed)
  have u: "user_input widgets_question = ''What is machine learning?''"
    by (simp add: widgets_question_def)
  have t0: "transcript (st_session state_loaded) = []"
    by (simp add: state_loaded_def transcript_def)
  have cr: "clean_response ?r = []"
    by (simp add: clean_response_def)
  have a: "assistant_run (world_answer ?r) (assistant_for None kb_pdf_url)
             ''What is machine learning?'' = Inr ?r"
    by (simp add: world_answer_def)
  have "transcript (st_session (fst (snd (app (world_answer ?r) widgets_question state_loaded)))) =
          transcript (st_session state_loaded) @
            [(''You'', ''What is machine learning?''), (''Assistant'', clean_response ?r)]"
    using chat_section_answer [OF _ a, of "fst (input_section widgets_question (st_session state_loaded))"]
    by (simp add: app_session c load_section_state_loaded transcript_input_section u)
  then have t: "transcript (st_session (fst (snd (app (world_answer ?r) widgets_question state_loaded)))) =
          [(''You'', ''What is machine learning?''), (''Assistant'', [])]"
    by (simp only: t0 cr append_Nil)
  show ?thesis
    using script_knowledge_base_state_loaded [of "world_answer ?r" widgets_question] a t
    by blast
qed

text \<open>
  C2 (amended).  In an execution that passes the credential check, with a non-empty question
  and a loaded knowledge base, if \<^verbatim>\<open>assistant.run\<close> returns an answer object then exactly two
  entries are appended to the transcript, in order: \<open>(You, question)\<close>, then
  \<open>(Assistant, text)\<close>, where the text is the answer's \<^verbatim>\<open>content\<close> attribute when it has one and
  its string conversion otherwise.  Nothing makes the text non-empty.
\<close>

theorem answer_appends_two_entries:
  assumes "fst (check_api_keys (st_environ st)) = Completed"
    and "user_input wd \<noteq> []"
    and "script_knowledge_base w wd st = Some kb"
    and "assistant_run w (assistant_for None kb) (user_input wd) = Inr r"
  shows "transcript (st_session (fst (snd (app w wd st)))) =
           transcript (st_session st) @
             [(''You'', user_input wd),
              (''Assistant'', case response_content r of Some c \<Rightarrow> c | None \<Rightarrow> response_str r)]"
  using assms chat_section_answer [of "user_input wd" w kb r "fst (input_section wd (st_session st))"]
    script_knowledge_base_Some [OF assms(3)]
  by (simp add: app_session transcript_input_section clean_response_def)

theorem answer_appends_two_entries_witness:
  "fst (check_api_keys (st_environ state_loaded)) = Completed
   \<and> user_input widgets_question \<noteq> []
   \<and> script_knowledge_base (world_answer (RunResponse None ''Learning from data.''))
        widgets_question state_loaded = Some kb_pdf_url
   \<and> assistant_run (world_answer (RunResponse None ''Learning from data.''))
        (assistant_for None kb_pdf_url) (user_input widgets_question)
        = Inr (RunResponse None ''Learning from data.'')
   \<and> transcript (st_session (fst (snd (app (world_answer (RunResponse None ''Learning from data.''))
        widgets_question state_loaded)))) =
       [(''You'', ''What is machine learning?''), (''Assistant'', ''Learning from data.'')]"
proof -
  let ?w = "world_answer (RunResponse None ''Learning from data.'')"
  have c: "fst (check_api_keys (st_environ state_loaded)) = Completed"
    by (simp add: state_loaded_def env_ok_completed)
  have q: "user_input widgets_question \<noteq> []"
    by (simp add: widgets_question_def)
  have k: "script_knowledge_base ?w widgets_question state_loaded = Some kb_pdf_url"
    by (rule script_knowledge_base_state_loaded)
  have a: "assistant_run ?w (assistant_for None kb_pdf_url) (user_input widgets_question)
             = Inr (RunResponse None ''Learning from data.'')"
    by (simp add: world_answer_def)
  show ?thesis
    using c q k a answer_appends_two_entries [OF c q k a]
    by (simp add: widgets_question_def state_loaded_def transcript_def)
qed

text \<open>
  C3 (as stated, refuted).  \<^verbatim>\<open>assistant.run\<close> raises an exception whose text contains
  \<open>Request too large\<close> but whose class is not \<^verbatim>\<open>groq.APIStatusError\<close>: the handler of
  \<^verbatim>\<open>Exception\<close> takes it, and the message shown is the generic one, not the targeted one.
\<close>

theorem marker_in_other_exception_counterexample:
  "script_knowledge_base (world_raises (PyExc OtherException ''Request too large for model''))
      widgets_question state_loaded = Some kb_pdf_url
   \<and> assistant_run (world_raises (PyExc OtherException ''Request too large for model''))
        (assistant_for None kb_pdf_url) ''What is machine learning?''
       = Inl (PyExc OtherException ''Request too large for model'')
   \<and> str_in ''Request too large'' (exc_str (PyExc OtherException ''Request too large for model''))
   \<and> filter is_error (snd (snd (app
        (world_raises (PyExc OtherException ''Request too large for model''))
        widgets_question state_loaded))) =
       [StError ''An unexpected error occurred: Request too large for model'']
   \<and> StError too_large_message \<notin> set (snd (snd (app
        (world_raises (PyExc OtherException ''Request too large for model''))
        widgets_question state_loaded)))"
proof -
  let ?e = "PyExc OtherException ''Request too large for model''"
  let ?ev = "snd (snd (app (world_raises ?e) widgets_question state_loaded))"
  have u: "user_input widgets_question = ''What is machine learning?''"
    by (simp add: widgets_question_def)
  have k: "script_knowledge_base (world_raises ?e) widgets_question state_loaded = Some kb_pdf_url"
    by (rule script_knowledge_base_state_loaded)
  have a: "assistant_run (world_raises ?e) (assistant_for None kb_pdf_url)
             ''What is machine learning?'' = Inl ?e"
    by (simp add: world_raises_def)
  have m: "str_in ''Request too large'' (exc_str ?e)"
    by simp
  have h: "handle_exception ?e =
             (None, [StError ''An unexpected error occurred: Request too large for model''])"
    by (simp add: handle_exception_def isinstance_APIStatusError_def isinstance_Exception_def)
  have chat: "snd (snd (chat_section (world_raises ?e) ''What is machine learning?''
                  (Some kb_pdf_url) (fst (input_section widgets_question (st_session state_loaded))))) =
         [StMarkdown ChatHeading, StTextInput ''Ask a question:'',
          AgentInit (assistant_for None kb_pdf_url),
          AgentRun (assistant_for None kb_pdf_url) ''What is machine learning?'']
         @ snd (handle_exception ?e)"
    using chat_section_exception [OF _ a] by simp
  have f: "filter is_error ?ev = [StError ''An unexpected error occurred: Request too large for model'']"
    by (simp add: app_events state_loaded_completed load_section_state_loaded u chat h
        filter_input_section load_section_quiet filter_display_section split: outcome.splits)
  have "StError too_large_message \<notin> set (filter is_error ?ev)"
    unfolding f by (simp add: too_large_message_def)
  then have n: "StError too_large_message \<notin> set ?ev"
    by simp
  from k a m f n show ?thesis by blast
qed

text \<open>
  C3 (amended).  In an execution that passes the credential check, with a non-empty question
  and a loaded knowledge base, if \<^verbatim>\<open>assistant.run\<close> raises an exception then the transcript is
  unchanged, and exactly one error message is shown when the exception is an \<^verbatim>\<open>Exception\<close>:
  the targeted message for a \<^verbatim>\<open>groq.APIStatusError\<close> whose text contains
  \<open>Request too large\<close>; \<open>An error occurred:\<close> with the text for any other
  \<^verbatim>\<open>groq.APIStatusError\<close>; \<open>An unexpected error occurred:\<close> with the text for any other
  \<^verbatim>\<open>Exception\<close>.  An exception outside \<^verbatim>\<open>Exception\<close> is not caught: it ends the execution
  with no message.
\<close>

theorem agent_exception_leaves_transcript:
  assumes "fst (check_api_keys (st_environ st)) = Completed"
    and "user_input wd \<noteq> []"
    and "script_knowledge_base w wd st = Some kb"
    and "assistant_run w (assistant_for None kb) (user_input wd) = Inl e"
  shows "transcript (st_session (fst (snd (app w wd st)))) = transcript (st_session st)
    \<and> filter is_error (snd (snd (app w wd st))) =
        (if isinstance_APIStatusError e then
           (if str_in ''Request too large'' (exc_str e) then [StError too_large_message]
            else [StError (''An error occurred: '' @ exc_str e)])
         else if isinstance_Exception e then
           [StError (''An unexpected error occurred: '' @ exc_str e)]
         else [])
    \<and> fst (app w wd st) =
        (if isinstance_APIStatusError e \<or> isinstance_Exception e then Completed else Raised e)"
proof -
  let ?ss = "fst (input_section wd (st_session st))"
  note chat = chat_section_exception [OF assms(2) assms(4), of ?ss]
  note loaded = script_knowledge_base_Some [OF assms(3)]
  have t: "transcript (st_session (fst (snd (app w wd st)))) = transcript (st_session st)"
    using assms(1) loaded chat by (simp add: app_session transcript_input_section)
  have o: "fst (app w wd st) =
      (if isinstance_APIStatusError e \<or> isinstance_Exception e then Completed else Raised e)"
    using assms(1) loaded chat by (simp add: app_outcome handle_exception_def)
  have "filter is_error (snd (snd (app w wd st))) = snd (handle_exception e)"
    using assms(1) loaded chat
    by (simp add: app_events filter_input_section load_section_quiet filter_display_section
        handle_exception_errors split: outcome.splits)
  then have ev: "filter is_error (snd (snd (app w wd st))) =
        (if isinstance_APIStatusError e then
           (if str_in ''Request too large'' (exc_str e) then [StError too_large_message]
            else [StError (''An error occurred: '' @ exc_str e)])
         else if isinstance_Exception e then
           [StError (''An unexpected error occurred: '' @ exc_str e)]
         else [])"
    by (simp add: handle_exception_def)
  from t ev o show ?thesis by blast
qed

theorem agent_exception_leaves_transcript_witness:
  "fst (check_api_keys (st_environ state_loaded)) = Completed
   \<and> user_input widgets_question \<noteq> []
   \<and> script_knowledge_base
        (world_raises (PyExc APIStatusError ''Error code: 413 - Request too large for model''))
        widgets_question state_loaded = Some kb_pdf_url
   \<and> assistant_run
        (world_raises (PyExc APIStatusError ''Error code: 413 - Request too large for model''))
        (assistant_for None kb_pdf_url) (user_input widgets_question)
       = Inl (PyExc APIStatusError ''Error code: 413 - Request too large for model'')
   \<and> transcript (st_session (fst (snd (app
        (world_raises (PyExc APIStatusError ''Error code: 413 - Request too large for model''))
        widgets_question state_loaded)))) = []
   \<and> filter is_error (snd (snd (app
        (world_raises (PyExc APIStatusError ''Error code: 413 - Request too large for model''))
        widgets_question state_loaded))) = [StError too_large_message]
   \<and> fst (app
        (world_raises (PyExc APIStatusError ''Error code: 413 - Request too large for model''))
        widgets_question state_loaded) = Completed"
proof -
  let ?e = "PyExc APIStatusError ''Error code: 413 - Request too large for model''"
  have q: "user_input widgets_question \<noteq> []"
    by (simp add: widgets_question_def)
  have k: "script_knowledge_base (world_raises ?e) widgets_question state_loaded = Some kb_pdf_url"
    by (rule script_knowledge_base_state_loaded)
  have a: "assistant_run (world_raises ?e) (assistant_for None kb_pdf_url)
             (user_input widgets_question) = Inl ?e"
    by (simp add: world_raises_def)
  have t0: "transcript (st_session state_loaded) = []"
    by (simp add: state_loaded_def transcript_def)
  have m: "str_in ''Request too large'' (exc_str ?e)"
    by simp
  have i: "isinstance_APIStatusError ?e"
    by (simp add: isinstance_APIStatusError_def)
  show ?thesis
    using agent_exception_leaves_transcript [OF state_loaded_completed q k a]
      state_loaded_completed q k a
    by (simp only: t0 m i if_True simp_thms)
qed

text \<open>
  C8.  Whatever the question, when the script's \<^verbatim>\<open>knowledge_base\<close> is \<^verbatim>\<open>None\<close> the agent is
  neither constructed nor run, and the transcript keeps its entries.
\<close>

theorem no_knowledge_base_no_agent:
  assumes "script_knowledge_base w wd st = None"
  shows "filter is_agent_event (snd (snd (app w wd st))) = []
    \<and> transcript (st_session (fst (snd (app w wd st)))) = transcript (st_session st)"
proof (cases "fst (check_api_keys (st_environ st)) = Completed")
  case True
  from script_knowledge_base_None [OF assms] show ?thesis
  proof (elim disjE exE)
    assume "snd (snd (load_section w wd (st_cache st) (fst (input_section wd (st_session st)))))
      = Inr None"
    then show ?thesis
      using True
        chat_section_no_knowledge_base [of w "user_input wd" "fst (input_section wd (st_session st))"]
      by (simp add: app_events app_session filter_input_section load_section_quiet
          filter_display_section transcript_input_section split: outcome.splits)
  next
    fix e
    assume "snd (snd (load_section w wd (st_cache st) (fst (input_section wd (st_session st)))))
      = Inl e"
    then show ?thesis
      using True
      by (simp add: app_events app_session filter_input_section load_section_quiet
          transcript_input_section)
  qed
next
  case False
  then have "snd (snd (app w wd st)) = [] \<or> snd (snd (app w wd st)) = [StError missing_api_keys]"
    using check_api_keys_missing [of "st_environ st"]
      check_api_keys_present [of "st_environ st"]
    by (cases "st_environ st ''GROQ_API_KEY''"; cases "st_environ st ''GOOGLE_API_KEY''")
       (auto simp: app_not_completed split: if_splits)
  with False show ?thesis
    by (auto simp: app_not_completed)
qed

theorem no_knowledge_base_no_agent_witness:
  "script_knowledge_base (world_answer (RunResponse None ''Learning from data.''))
      widgets_question state0 = None
   \<and> user_input widgets_question = ''What is machine learning?''
   \<and> filter is_agent_event (snd (snd (app (world_answer (RunResponse None ''Learning from data.''))
        widgets_question state0))) = []
   \<and> transcript (st_session (fst (snd (app (world_answer (RunResponse None ''Learning from data.''))
        widgets_question state0)))) = []"
proof -
  let ?w = "world_answer (RunResponse None ''Learning from data.'')"
  have k: "script_knowledge_base ?w widgets_question state0 = None"
    by (simp add: script_knowledge_base_def state0_def fresh_session_def widgets_question_def
        input_section_def load_section_not_requested load_requested_def)
  have u: "user_input widgets_question = ''What is machine learning?''"
    by (simp add: widgets_question_def)
  have t0: "transcript (st_session state0) = []"
    by (simp add: state0_def fresh_session_def transcript_def)
  show ?thesis
    using no_knowledge_base_no_agent [OF k] k u
    by (simp only: t0 simp_thms)
qed

text \<open>
  C9.  Starting from a transcript made of pairs (in particular from the empty transcript of a
  fresh session), after any sequence of executions the transcript is made of pairs, a
  \<open>You\<close> entry immediately followed by an \<open>Assistant\<close> entry, and has even length.  One
  execution either leaves the transcript as it is or appends a \<open>You\<close> entry with the question
  together with an \<open>Assistant\<close> entry, never one without the other.  An execution that
  completes displays one line per entry, in the order of the transcript.
\<close>

theorem chat_history_paired:
  assumes "paired (transcript (st_session st))"
  shows "paired (transcript (st_session (run_session st ps)))
    \<and> even (length (transcript (st_session (run_session st ps))))
    \<and> (transcript (st_session (fst (snd (app w wd st)))) = transcript (st_session st)
        \<or> (\<exists>a. transcript (st_session (fst (snd (app w wd st)))) =
              transcript (st_session st) @ [(''You'', user_input wd), (''Assistant'', a)]))
    \<and> (fst (app w wd st) = Completed \<longrightarrow>
         filter is_chat_line (snd (snd (app w wd st))) =
           map display_entry (transcript (st_session (fst (snd (app w wd st))))))"
proof -
  have p: "paired (transcript (st_session (run_session st ps)))"
    using assms by (rule run_session_paired)
  have d: "filter is_chat_line (snd (snd (app w wd st))) =
           map display_entry (transcript (st_session (fst (snd (app w wd st)))))"
    if "fst (app w wd st) = Completed"
  proof -
    have c: "fst (check_api_keys (st_environ st)) = Completed"
      using that by (cases "fst (check_api_keys (st_environ st)) = Completed")
        (simp_all add: app_not_completed)
    show ?thesis
      using that app_outcome [OF c, of w wd]
      by (simp add: app_events [OF c] filter_input_section load_section_quiet chat_section_quiet
          filter_display_section split: sum.splits)
  qed
  from p paired_even [OF p] app_transcript_step [of w wd st] d show ?thesis
    by blast
qed

theorem chat_history_paired_witness:
  "paired (transcript (st_session state0))
   \<and> transcript (st_session (run_session state0
        [(world_answer (RunResponse None ''Learning from data.''), widgets_load_pdf_url),
         (world_answer (RunResponse None ''Learning from data.''), widgets_question)]))
       = [(''You'', ''What is machine learning?''), (''Assistant'', ''Learning from data.'')]
   \<and> paired (transcript (st_session (run_session state0
        [(world_answer (RunResponse None ''Learning from data.''), widgets_load_pdf_url),
         (world_answer (RunResponse None ''Learning from data.''), widgets_question)])))
   \<and> fst (app (world_answer (RunResponse None ''Learning from data.'')) widgets_question
        state_loaded) = Completed
   \<and> filter is_chat_line (snd (snd (app (world_answer (RunResponse None ''Learning from data.''))
        widgets_question state_loaded))) =
       [StMarkdown (YouLine ''What is machine learning?''),
        StMarkdown (AssistantLine ''Learning from data.'')]"
proof -
  let ?r = "RunResponse None ''Learning from data.''"
  let ?w = "world_answer ?r"
  have p0: "paired (transcript (st_session state0))"
    by (simp add: state0_def fresh_session_def transcript_def)
  have p1: "paired (transcript (st_session state_loaded))"
    by (simp add: state_loaded_def transcript_def)
  have u: "user_input widgets_question = ''What is machine learning?''"
    by (simp add: widgets_question_def)
  have a: "assistant_run ?w (assistant_for None kb_pdf_url) ''What is machine learning?'' = Inr ?r"
    by (simp add: world_answer_def)
  note chat = chat_section_answer [OF _ a,
      of "fst (input_section widgets_question (st_session state_loaded))"]
  have t: "transcript (st_session (fst (snd (app ?w widgets_question state_loaded)))) =
      [(''You'', ''What is machine learning?''), (''Assistant'', ''Learning from data.'')]"
    using chat
    by (simp add: app_session state_loaded_completed load_section_state_loaded u
        transcript_input_section clean_response_def)
       (simp add: state_loaded_def transcript_def)
  have o: "fst (app ?w widgets_question state_loaded) = Completed"
    using chat
    by (simp add: app_outcome state_loaded_completed load_section_state_loaded u)
  have rs: "run_session state0 [(?w, widgets_load_pdf_url), (?w, widgets_question)] =
      fst (snd (app ?w widgets_question state_loaded))"
    using state_loaded_reachable [of ?r] by simp
  show ?thesis
    using chat_history_paired [OF p0, of "[(?w, widgets_load_pdf_url), (?w, widgets_question)]"]
      chat_history_paired [OF p1, of "[]" ?w widgets_question] p0 o
    unfolding rs t
    by (simp add: display_entry_def)
qed

section \<open>Results about loading\<close>

text \<open>
  C5 (as stated, refuted).  The load button is pressed once with a PDF URL filled in; in a
  later execution of the same session every source input is empty and the load is still
  requested.  The memoized handle of the first load is returned, and the script shows the
  success message, not the warning.
\<close>

theorem stale_cache_success_counterexample:
  "pdf_url_input widgets_all_empty = []
   \<and> uploaded_pdf_file widgets_all_empty = None
   \<and> website_url_input widgets_all_empty = []
   \<and> load_requested (st_session
        (run_session state0 [(world_answer (RunResponse None []), widgets_load_pdf_url)]))
   \<and> filter is_load_result (snd (snd (app (world_answer (RunResponse None [])) widgets_all_empty
        (run_session state0 [(world_answer (RunResponse None []), widgets_load_pdf_url)]))))
       = [StSuccess success_message]"
proof -
  let ?w = "world_answer (RunResponse None [])"
  have r: "run_session state0 [(?w, widgets_load_pdf_url)] = state_loaded"
    by (rule state_loaded_reachable)
  have e: "pdf_url_input widgets_all_empty = [] \<and> uploaded_pdf_file widgets_all_empty = None
      \<and> website_url_input widgets_all_empty = []"
    by (simp add: widgets_all_empty_def)
  have l: "load_requested (st_session state_loaded)"
    by (simp add: state_loaded_def load_requested_def)
  have c: "st_cache state_loaded = Some (Some kb_pdf_url)"
    by (simp add: state_loaded_def)
  have "filter is_load_result (snd (snd (app ?w widgets_all_empty state_loaded)))
          = [StSuccess success_message]"
    using l
    by (simp add: app_events state_loaded_completed filter_input_section chat_section_quiet
        filter_display_section load_section_requested load_requested_input_section c
        load_knowledge_base_hit split: outcome.splits)
  with e l show ?thesis
    unfolding r by blast
qed

text \<open>
  C5 (amended).  In an execution that passes the credential check with all three source
  inputs empty and a load requested, if the cache of \<^verbatim>\<open>load_knowledge_base\<close> holds no handle
  (it is empty, or holds \<^verbatim>\<open>None\<close>), then the aggregator returns no combined knowledge base,
  the script's \<^verbatim>\<open>knowledge_base\<close> is \<^verbatim>\<open>None\<close>, no index load is invoked, and the script shows
  the no-sources warning and not the success message.
\<close>

theorem no_sources_warning_without_cached_handle:
  assumes "fst (check_api_keys (st_environ st)) = Completed"
    and "pdf_url_input wd = []" and "uploaded_pdf_file wd = None" and "website_url_input wd = []"
    and "load_button wd \<or> load_requested (st_session st)"
    and "st_cache st = None \<or> st_cache st = Some None"
  shows "snd (create_combined_knowledge_base w wd) = None
    \<and> script_knowledge_base w wd st = None
    \<and> filter is_index_load (snd (snd (app w wd st))) = []
    \<and> filter is_load_result (snd (snd (app w wd st))) = [StWarning no_sources_warning]"
proof -
  let ?ss = "fst (input_section wd (st_session st))"
  have b: "create_combined_knowledge_base w wd = ([], None)"
    using assms(2-4) by (rule create_combined_knowledge_base_empty)
  have req: "load_requested ?ss"
    using assms(5) by (simp add: load_requested_input_section)
  have l: "load_knowledge_base w wd (st_cache st) = (Some None, [], Inr None)"
    using assms(6) b
    by (auto simp: load_knowledge_base_hit load_knowledge_base_miss load_knowledge_base_body_None)
  have k: "script_knowledge_base w wd st = None"
    using assms(5) l by (simp add: script_knowledge_base_requested)
  have i: "filter is_index_load (snd (snd (app w wd st))) = []"
    using assms(1) req l by (simp add: app_index_loads load_section_requested)
  have m: "filter is_load_result (snd (snd (app w wd st))) = [StWarning no_sources_warning]"
    using assms(1) req l
    by (simp add: app_events filter_input_section chat_section_quiet filter_display_section
        load_section_requested split: outcome.splits)
  from b k i m show ?thesis by simp
qed

theorem no_sources_warning_without_cached_handle_witness:
  "fst (check_api_keys (st_environ state0)) = Completed
   \<and> pdf_url_input (widgets_all_empty\<lparr>load_button := True\<rparr>) = []
   \<and> uploaded_pdf_file (widgets_all_empty\<lparr>load_button := True\<rparr>) = None
   \<and> website_url_input (widgets_all_empty\<lparr>load_button := True\<rparr>) = []
   \<and> load_button (widgets_all_empty\<lparr>load_button := True\<rparr>)
   \<and> st_cache state0 = None
   \<and> script_knowledge_base (world_answer (RunResponse None []))
        (widgets_all_empty\<lparr>load_button := True\<rparr>) state0 = None
   \<and> filter is_index_load (snd (snd (app (world_answer (RunResponse None []))
        (widgets_all_empty\<lparr>load_button := True\<rparr>) state0))) = []
   \<and> filter is_load_result (snd (snd (app (world_answer (RunResponse None []))
        (widgets_all_empty\<lparr>load_button := True\<rparr>) state0))) = [StWarning no_sources_warning]"
proof -
  let ?wd = "widgets_all_empty\<lparr>load_button := True\<rparr>"
  have c: "fst (check_api_keys (st_environ state0)) = Completed"
    by (simp add: state0_def env_ok_completed)
  have p: "pdf_url_input ?wd = []" and u: "uploaded_pdf_file ?wd = None"
    and s: "website_url_input ?wd = []"
    by (simp_all add: widgets_all_empty_def)
  have b: "load_button ?wd \<or> load_requested (st_session state0)"
    by simp
  have n: "st_cache state0 = None"
    by (simp add: state0_def)
  then have n': "st_cache state0 = None \<or> st_cache state0 = Some None"
    by simp
  show ?thesis
    using no_sources_warning_without_cached_handle
      [OF c p u s b n', of "world_answer (RunResponse None [])"] c p u s n
    by simp
qed

text \<open>
  C6 (as stated, refuted).  The load button is pressed a second time with the same PDF URL
  filled in: the memoized handle is returned and no load operation is invoked.
\<close>

theorem second_load_not_reindexed_counterexample:
  "pdf_url_input widgets_load_pdf_url = ''https://example.com/a.pdf''
   \<and> load_button widgets_load_pdf_url
   \<and> filter is_index_load (snd (snd (app (world_answer (RunResponse None [])) widgets_load_pdf_url
        (run_session state0 [(world_answer (RunResponse None []), widgets_load_pdf_url)])))) = []"
proof -
  have "st_cache state_loaded = Some (Some kb_pdf_url)"
    by (simp add: state_loaded_def)
  then have "filter is_index_load
      (snd (snd (app (world_answer (RunResponse None [])) widgets_load_pdf_url state_loaded))) = []"
    by (rule app_cache_hit)
  moreover have "pdf_url_input widgets_load_pdf_url = ''https://example.com/a.pdf''"
    and "load_button widgets_load_pdf_url"
    by (simp_all add: widgets_load_pdf_url_def)
  ultimately show ?thesis
    unfolding state_loaded_reachable by blast
qed

text \<open>
  C6 (amended).  In an execution that passes the credential check with at least one source
  input populated and a load requested, if \<^verbatim>\<open>load_knowledge_base\<close> has not returned before in
  this process (its cache is empty) and the load operation of the combined handle returns
  normally, then the combined handle is not \<^verbatim>\<open>None\<close>, its load operation is invoked exactly
  once, with \<^verbatim>\<open>recreate=True\<close>, the script shows the success message and not the warning, and
  the handle is memoized; the later executions of the session are served this handle from
  the cache and invoke no load.
\<close>

theorem first_load_indexes_and_succeeds:
  assumes "fst (check_api_keys (st_environ st)) = Completed"
    and "pdf_url_input wd \<noteq> [] \<or> uploaded_pdf_file wd \<noteq> None \<or> website_url_input wd \<noteq> []"
    and "load_button wd \<or> load_requested (st_session st)"
    and "st_cache st = None"
    and "\<forall>kb. snd (create_combined_knowledge_base w wd) = Some kb \<longrightarrow> kb_load w kb = None"
  shows "\<exists>kb. script_knowledge_base w wd st = Some kb
    \<and> filter is_index_load (snd (snd (app w wd st))) = [KBLoad kb True]
    \<and> filter is_load_result (snd (snd (app w wd st))) = [StSuccess success_message]
    \<and> st_cache (fst (snd (app w wd st))) = Some (Some kb)
    \<and> st_cache (run_session (fst (snd (app w wd st))) ps) = Some (Some kb)
    \<and> filter is_index_load (session_events (fst (snd (app w wd st))) ps) = []
    \<and> script_knowledge_base w' wd' (run_session (fst (snd (app w wd st))) ps) = Some kb"
proof -
  let ?ss = "fst (input_section wd (st_session st))"
  let ?st1 = "fst (snd (app w wd st))"
  obtain kb where b: "snd (create_combined_knowledge_base w wd) = Some kb"
    using create_combined_knowledge_base_populated [OF assms(2)] by blast
  then have ok: "kb_load w kb = None"
    using assms(5) by simp
  have req: "load_requested ?ss"
    using assms(3) by (simp add: load_requested_input_section)
  have l: "load_section w wd (st_cache st) ?ss =
      (Some (Some kb),
       fst (create_combined_knowledge_base w wd) @ [KBLoad kb True, StSuccess success_message],
       Inr (Some kb))"
    using load_section_first_load [OF req b] ok assms(4) by simp
  have k: "script_knowledge_base w wd st = Some kb"
    using l by (simp add: script_knowledge_base_def)
  have i: "filter is_index_load (snd (snd (app w wd st))) = [KBLoad kb True]"
    using assms(1) l
    by (simp add: app_index_loads create_combined_knowledge_base_events)
  have m: "filter is_load_result (snd (snd (app w wd st))) = [StSuccess success_message]"
    using assms(1) l
    by (simp add: app_load_results create_combined_knowledge_base_quiet)
  have c: "st_cache ?st1 = Some (Some kb)"
    using assms(1) l by (simp add: app_cache)
  note h = run_session_cache_hit [OF c, of ps]
  have "load_requested (st_session ?st1)"
    using assms(1,3) by (auto simp: app_load_requested)
  then have "load_requested (st_session (run_session ?st1 ps))"
    by (rule run_session_load_requested)
  with h have later: "script_knowledge_base w' wd' (run_session ?st1 ps) = Some kb"
    by (simp add: script_knowledge_base_hit)
  from k i m c h later show ?thesis by blast
qed

theorem first_load_indexes_and_succeeds_witness:
  "fst (check_api_keys (st_environ state0)) = Completed
   \<and> pdf_url_input widgets_load_pdf_url \<noteq> []
   \<and> load_button widgets_load_pdf_url
   \<and> st_cache state0 = None
   \<and> snd (create_combined_knowledge_base (world_answer (RunResponse None [])) widgets_load_pdf_url)
       = Some kb_pdf_url
   \<and> kb_load (world_answer (RunResponse None [])) kb_pdf_url = None
   \<and> script_knowledge_base (world_answer (RunResponse None [])) widgets_load_pdf_url state0
       = Some kb_pdf_url
   \<and> filter is_index_load (snd (snd (app (world_answer (RunResponse None []))
        widgets_load_pdf_url state0))) = [KBLoad kb_pdf_url True]
   \<and> filter is_load_result (snd (snd (app (world_answer (RunResponse None []))
        widgets_load_pdf_url state0))) = [StSuccess success_message]
   \<and> filter is_index_load (session_events
        (fst (snd (app (world_answer (RunResponse None [])) widgets_load_pdf_url state0)))
        [(world_answer (RunResponse None []), widgets_rerun_pdf_url)]) = []
   \<and> script_knowledge_base (world_answer (RunResponse None [])) widgets_rerun_pdf_url
        (run_session
          (fst (snd (app (world_answer (RunResponse None [])) widgets_load_pdf_url state0)))
          [(world_answer (RunResponse None []), widgets_rerun_pdf_url)]) = Some kb_pdf_url"
proof -
  let ?w = "world_answer (RunResponse None [])"
  let ?ps = "[(?w, widgets_rerun_pdf_url)]"
  have p: "pdf_url_input widgets_load_pdf_url \<noteq> []"
    by (simp add: widgets_load_pdf_url_def)
  then have p': "pdf_url_input widgets_load_pdf_url \<noteq> [] \<or> uploaded_pdf_file widgets_load_pdf_url \<noteq> None
      \<or> website_url_input widgets_load_pdf_url \<noteq> []"
    by simp
  have b: "load_button widgets_load_pdf_url"
    by (simp add: widgets_load_pdf_url_def)
  then have b': "load_button widgets_load_pdf_url \<or> load_requested (st_session state0)"
    by simp
  have n: "st_cache state0 = None"
    by (simp add: state0_def)
  have cr: "snd (create_combined_knowledge_base ?w widgets_load_pdf_url) = Some kb_pdf_url"
    by (simp add: create_combined_knowledge_base_pdf_url)
  have ok: "kb_load ?w kb_pdf_url = None"
    by (simp add: world_answer_def)
  have ok': "\<forall>kb. snd (create_combined_knowledge_base ?w widgets_load_pdf_url) = Some kb
      \<longrightarrow> kb_load ?w kb = None"
    by (simp add: world_answer_def)
  from first_load_indexes_and_succeeds
    [OF state0_completed p' b' n ok', of ?ps ?w widgets_rerun_pdf_url]
  obtain kb where kb: "script_knowledge_base ?w widgets_load_pdf_url state0 = Some kb"
      "filter is_index_load (snd (snd (app ?w widgets_load_pdf_url state0))) = [KBLoad kb True]"
      "filter is_load_result (snd (snd (app ?w widgets_load_pdf_url state0))) =
         [StSuccess success_message]"
      "filter is_index_load
         (session_events (fst (snd (app ?w widgets_load_pdf_url state0))) ?ps) = []"
      "script_knowledge_base ?w widgets_rerun_pdf_url
         (run_session (fst (snd (app ?w widgets_load_pdf_url state0))) ?ps) = Some kb"
    by blast
  from kb(1) have "kb = kb_pdf_url"
    by (simp add: script_knowledge_base_state0)
  with kb state0_completed p b n cr ok show ?thesis by blast
qed




text \<open>
  C10 (as stated, refuted).  The load button is pressed with a PDF URL filled in and the load
  raises.  The flag is set and nothing is memoized: the next execution takes the load path,
  but it is not served from a cache, it runs the index load again.
\<close>

theorem failed_load_not_served_from_cache_counterexample:
  "load_button widgets_load_pdf_url
   \<and> load_requested (st_session (fst (snd (app world_load_fails widgets_load_pdf_url state0))))
   \<and> st_cache (fst (snd (app world_load_fails widgets_load_pdf_url state0))) = None
   \<and> filter is_index_load (snd (snd (app (world_answer (RunResponse None []))
        widgets_rerun_pdf_url
        (fst (snd (app world_load_fails widgets_load_pdf_url state0))))))
       = [KBLoad kb_pdf_url True]"
  unfolding state_load_failed_reachable
  by (simp add: reload_after_failed_load)
     (simp add: widgets_load_pdf_url_def state_load_failed_def load_requested_def)

text \<open>
  C10 (amended).  After an execution that passes the credential check with the load button
  pressed, and any further executions of the session: the load-requested flag is still set,
  and the next execution passes the credential check again and takes the load path: either
  it shows exactly one of the success message and the warning, or nothing was memoized yet
  and its load is invoked and raises.  If the \<^verbatim>\<open>load_knowledge_base\<close> of the button press
  returned normally, every later execution is served the handle it memoized and invokes no
  index load.
\<close>

theorem load_flag_never_cleared:
  assumes "fst (check_api_keys (st_environ st)) = Completed"
    and "load_button wd"
  shows "load_requested (st_session (run_session (fst (snd (app w wd st))) ps))
    \<and> fst (check_api_keys (st_environ (run_session (fst (snd (app w wd st))) ps))) = Completed
    \<and> (length (filter is_load_result
           (snd (snd (app w' wd' (run_session (fst (snd (app w wd st))) ps))))) = 1
        \<or> (st_cache (run_session (fst (snd (app w wd st))) ps) = None
            \<and> filter is_index_load
                 (snd (snd (app w' wd' (run_session (fst (snd (app w wd st))) ps)))) \<noteq> []
            \<and> (\<exists>e. fst (app w' wd' (run_session (fst (snd (app w wd st))) ps)) = Raised e)))
    \<and> (snd (snd (load_knowledge_base w wd (st_cache st))) = Inr r \<longrightarrow>
         st_cache (run_session (fst (snd (app w wd st))) ps) = Some r
         \<and> script_knowledge_base w' wd' (run_session (fst (snd (app w wd st))) ps) = r
         \<and> length (filter is_load_result
              (snd (snd (app w' wd' (run_session (fst (snd (app w wd st))) ps))))) = 1
         \<and> filter is_index_load (session_events (fst (snd (app w wd st))) ps) = [])"
proof -
  let ?st1 = "fst (snd (app w wd st))"
  let ?stn = "run_session ?st1 ps"
  let ?ssn = "fst (input_section wd' (st_session ?stn))"
  let ?loaded = "load_section w' wd' (st_cache ?stn) ?ssn"
  have f1: "load_requested (st_session ?st1)"
    using assms by (simp add: app_load_requested)
  then have f: "load_requested (st_session ?stn)"
    by (rule run_session_load_requested)
  have e: "fst (check_api_keys (st_environ ?stn)) = Completed"
    using assms(1) by (simp add: run_session_environ app_environ)
  have reqn: "load_requested ?ssn"
    using f by (simp add: load_requested_input_section)
  have path: "length (filter is_load_result (snd (snd (app w' wd' ?stn)))) = 1
        \<or> (st_cache ?stn = None
            \<and> filter is_index_load (snd (snd (app w' wd' ?stn))) \<noteq> []
            \<and> (\<exists>e. fst (app w' wd' ?stn) = Raised e))"
  proof (cases "snd (snd ?loaded)")
    case (Inl ex)
    from load_section_raises [OF Inl] Inl e show ?thesis
      by (simp add: app_index_loads app_outcome)
  next
    case (Inr kb)
    then show ?thesis
      using reqn e
      by (simp add: app_load_results load_section_result split: option.splits)
  qed
  have served: "st_cache ?stn = Some r \<and> script_knowledge_base w' wd' ?stn = r
         \<and> length (filter is_load_result (snd (snd (app w' wd' ?stn)))) = 1
         \<and> filter is_index_load (session_events ?st1 ps) = []"
    if l: "snd (snd (load_knowledge_base w wd (st_cache st))) = Inr r"
  proof -
    have req: "load_requested (fst (input_section wd (st_session st)))"
      using assms(2) by (simp add: load_requested_input_section)
    have c1: "st_cache ?st1 = Some r"
      using assms(1) req load_knowledge_base_fills_cache [OF l]
      by (simp add: app_cache load_section_requested)
    note h = run_session_cache_hit [OF c1, of ps]
    have k: "script_knowledge_base w' wd' ?stn = r"
      using h f by (simp add: script_knowledge_base_hit)
    have "snd (snd ?loaded) = Inr r"
      using h reqn by (simp add: load_section_hit)
    then have n: "length (filter is_load_result (snd (snd (app w' wd' ?stn)))) = 1"
      using reqn e by (simp add: app_load_results load_section_result split: option.splits)
    from h k n show ?thesis by simp
  qed
  from f e path served show ?thesis by blast
qed

theorem load_flag_never_cleared_witness:
  "fst (check_api_keys (st_environ state0)) = Completed
   \<and> load_button widgets_load_pdf_url
   \<and> snd (snd (load_knowledge_base (world_answer (RunResponse None [])) widgets_load_pdf_url
        (st_cache state0))) = Inr (Some kb_pdf_url)
   \<and> load_requested (st_session (run_session
        (fst (snd (app (world_answer (RunResponse None [])) widgets_load_pdf_url state0)))
        [(world_answer (RunResponse None []), widgets_all_empty),
         (world_answer (RunResponse None []), widgets_question)]))
   \<and> script_knowledge_base (world_answer (RunResponse None [])) widgets_question
        (run_session
          (fst (snd (app (world_answer (RunResponse None [])) widgets_load_pdf_url state0)))
          [(world_answer (RunResponse None []), widgets_all_empty),
           (world_answer (RunResponse None []), widgets_question)])
       = Some kb_pdf_url
   \<and> length (filter is_load_result (snd (snd (app (world_answer (RunResponse None []))
        widgets_question
        (run_session
          (fst (snd (app (world_answer (RunResponse None [])) widgets_load_pdf_url state0)))
          [(world_answer (RunResponse None []), widgets_all_empty),
           (world_answer (RunResponse None []), widgets_question)]))))) = 1"
proof -
  let ?w = "world_answer (RunResponse None [])"
  have b: "load_button widgets_load_pdf_url"
    by (simp add: widgets_load_pdf_url_def)
  have l: "snd (snd (load_knowledge_base ?w widgets_load_pdf_url (st_cache state0)))
      = Inr (Some kb_pdf_url)"
    by (simp add: state0_def load_knowledge_base_miss load_knowledge_base_body_Some
        create_combined_knowledge_base_pdf_url world_answer_def)
  show ?thesis
    using load_flag_never_cleared [OF state0_completed b, of ?w
        "[(?w, widgets_all_empty), (?w, widgets_question)]" ?w widgets_question
        "Some kb_pdf_url"] state0_completed b l
    by blast
qed

section \<open>Results about the builders\<close>

text \<open>
  C4.  Each of the three source builders returns no handle (\<open>None\<close>), not an error, when
  its input is empty (the empty string for the two URL builders, no uploaded file for the
  upload builder), and otherwise returns a handle whose vector store is that source type's
  own collection: \<open>pdf_url\<close>, \<open>pdf_documents\<close> and \<open>website_documents\<close>, three pairwise
  distinct names.
\<close>

theorem builders_none_or_own_collection:
  "create_pdf_url_knowledge_base [] = None
   \<and> snd (create_local_pdf_knowledge_base w None) = None
   \<and> create_website_knowledge_base [] = None
   \<and> (u \<noteq> [] \<longrightarrow> (\<exists>kb. create_pdf_url_knowledge_base u = Some kb
          \<and> collection (vector_db kb) = ''pdf_url''))
   \<and> (\<exists>kb. snd (create_local_pdf_knowledge_base w (Some f)) = Some kb
          \<and> collection (vector_db kb) = ''pdf_documents'')
   \<and> (v \<noteq> [] \<longrightarrow> (\<exists>kb. create_website_knowledge_base v = Some kb
          \<and> collection (vector_db kb) = ''website_documents''))
   \<and> distinct [''pdf_url'', ''pdf_documents'', ''website_documents'']"
  by (simp add: create_pdf_url_knowledge_base_def create_local_pdf_knowledge_base_def
      create_website_knowledge_base_def truthy_def Let_def)

theorem builders_none_or_own_collection_witness:
  "''https://example.com/a.pdf'' \<noteq> [] \<and> ''https://example.com'' \<noteq> []
   \<and> create_pdf_url_knowledge_base ''https://example.com/a.pdf'' =
       Some (PDFUrlKnowledgeBase (Groq ''llama3-70b-8192'' None) [''https://example.com/a.pdf'']
               (PgVector2 ''pdf_url'' db_url GeminiEmbedder))
   \<and> collection (vector_db (the (create_pdf_url_knowledge_base ''https://example.com/a.pdf'')))
       = ''pdf_url''
   \<and> collection (vector_db (the (snd (create_local_pdf_knowledge_base
         \<lparr>tempfile_name = ''/tmp/tmpab12.pdf'', assistant_run = (\<lambda>a q. Inr (RunResponse None [])),
           kb_load = (\<lambda>kb. None)\<rparr>
         (Some (UploadedFile ''a.pdf'' ''%PDF''))))))
       = ''pdf_documents''
   \<and> collection (vector_db (the (create_website_knowledge_base ''https://example.com'')))
       = ''website_documents''"
  using builders_none_or_own_collection
    [of "\<lparr>tempfile_name = ''/tmp/tmpab12.pdf'', assistant_run = (\<lambda>a q. Inr (RunResponse None [])),
           kb_load = (\<lambda>kb. None)\<rparr>"
        "''https://example.com/a.pdf''" "UploadedFile ''a.pdf'' ''%PDF''" "''https://example.com''"]
  by (simp add: create_pdf_url_knowledge_base_def create_local_pdf_knowledge_base_def
      create_website_knowledge_base_def truthy_def Let_def)

end
